theory Spec2Isabelle
  imports Complex_Main "HOL-Library.Product_Lexorder" "HOL-Library.Monad_Syntax"
begin

section \<open>Hit-song predictor: data model\<close>

text \<open>
  A shallow embedding of the Django application \<^verbatim>\<open>backend/predictions\<close>:
  \<^verbatim>\<open>inference.py\<close>, \<^verbatim>\<open>spotify_service.py\<close>, \<^verbatim>\<open>models.py\<close>, \<^verbatim>\<open>views.py\<close> and the
  management commands \<^verbatim>\<open>import_dataset.py\<close>, \<^verbatim>\<open>import_complete_dataset.py\<close> and
  \<^verbatim>\<open>clear_database.py\<close>.

  Conventions.
  \<^item> Python floats are modelled by \<open>pyfloat\<close>: a real number or NaN. Arithmetic on
    confidences is arithmetic on \<open>real\<close>; binary rounding of IEEE doubles is abstracted.
  \<^item> Python strings are \<open>string\<close>; case folding and whitespace are the ASCII ones.
  \<^item> Every \<^verbatim>\<open>raise\<close> and every error \<^verbatim>\<open>JsonResponse\<close> is a value of type \<open>error\<close>;
    a function that may raise returns \<open>error + 'a\<close> with \<open>Inl\<close> for the error.
  \<^item> The database is an explicit state that the handlers take and return.
\<close>

subsection \<open>Python values\<close>

datatype pyfloat = Fin real | NaN

text \<open>Python's \<^verbatim>\<open>x > 0.5\<close> on a float: every comparison with NaN is false.\<close>

fun pyfloat_gt :: "pyfloat \<Rightarrow> real \<Rightarrow> bool" where
  "pyfloat_gt (Fin x) y = (x > y)"
| "pyfloat_gt NaN y = False"

subsection \<open>Errors\<close>

text \<open>
  The failures of the application, under the names the specification gives them.
  \<^item> \<open>InvalidJSON\<close>: \<^verbatim>\<open>json.JSONDecodeError\<close>, answered with status 400.
  \<^item> \<open>MissingInformation\<close>: views.py:161, neither an identifier nor title and artist.
  \<^item> \<open>MissingFeatureError missing\<close>: views.py:447, the list of absent required fields.
  \<^item> \<open>InvalidFeatureTypeError\<close>: views.py:467, \<^verbatim>\<open>ValueError\<close> or \<^verbatim>\<open>TypeError\<close> of
    \<^verbatim>\<open>int()\<close> / \<^verbatim>\<open>float()\<close>.
  \<^item> \<open>ModelNotFoundError\<close>: inference.py:36, \<^verbatim>\<open>FileNotFoundError\<close> of \<^verbatim>\<open>load_model\<close>.
  \<^item> \<open>NotFoundOnSpotify\<close>: views.py:127, the catalog search returned nothing (404).
  \<^item> \<open>NotInTrainingDataError hints\<close>: views.py:148, with the \<^verbatim>\<open>spotify_results\<close> hint.
  \<^item> \<open>FeaturesUnavailableError\<close>: spotify_service.py:229.
  \<^item> \<open>RemoteNotFoundError\<close>, \<open>RemoteAuthError\<close>, \<open>RemoteError\<close>: failures of
    \<^verbatim>\<open>_make_request\<close> (404, token exchange, any other HTTP error).
  \<^item> \<open>DatabaseError\<close>: an ORM write raised.
  \<^item> \<open>PyException name\<close>: any other Python exception (\<^verbatim>\<open>IndexError\<close>,
    \<^verbatim>\<open>MultipleObjectsReturned\<close>, ...).
\<close>

datatype error =
    InvalidJSON
  | MissingInformation
  | MissingFeatureError "string list"
  | InvalidFeatureTypeError
  | ModelNotFoundError
  | NotFoundOnSpotify
  | NotInTrainingDataError "(string \<times> string \<times> string) list"
  | FeaturesUnavailableError
  | RemoteNotFoundError
  | RemoteAuthError
  | RemoteError
  | DatabaseError
  | PyException string

subsection \<open>Strings\<close>

text \<open>
  \<^verbatim>\<open>str.strip()\<close>, \<^verbatim>\<open>sep.join(xs)\<close>, \<^verbatim>\<open>in\<close> and ASCII case folding. The
  Django lookups \<^verbatim>\<open>__iexact\<close> and \<^verbatim>\<open>__icontains\<close> compare a column with a value
  without regard to case; a NULL column (\<open>None\<close>) matches nothing.
\<close>

definition is_space :: "char \<Rightarrow> bool" where
  "is_space c = (c \<in> set [CHR '' '', CHR 0x09, CHR 0x0A, CHR 0x0B, CHR 0x0C, CHR 0x0D])"

definition strip :: "string \<Rightarrow> string" where
  "strip s = rev (dropWhile is_space (rev (dropWhile is_space s)))"

fun join :: "string \<Rightarrow> string list \<Rightarrow> string" where
  "join sep [] = []"
| "join sep [x] = x"
| "join sep (x # y # ys) = x @ sep @ join sep (y # ys)"

text \<open>An ASCII capital (code 65 to 90) becomes the small letter: bit 5 is set.\<close>

definition lower_char :: "char \<Rightarrow> char" where
  "lower_char c =
     (let n = (of_char c :: nat) in
      if 65 \<le> n \<and> n \<le> 90 then
        (case c of Char b0 b1 b2 b3 b4 b5 b6 b7 \<Rightarrow> Char b0 b1 b2 b3 b4 True b6 b7)
      else c)"

definition lower :: "string \<Rightarrow> string" where
  "lower s = map lower_char s"

fun starts_with :: "string \<Rightarrow> string \<Rightarrow> bool" where
  "starts_with s [] = True"
| "starts_with [] (p # ps) = False"
| "starts_with (c # cs) (p # ps) = (c = p \<and> starts_with cs ps)"

text \<open>\<open>contains hay needle\<close>: \<^verbatim>\<open>needle in hay\<close>.\<close>

fun contains :: "string \<Rightarrow> string \<Rightarrow> bool" where
  "contains [] needle = (needle = [])"
| "contains (c # cs) needle = (starts_with (c # cs) needle \<or> contains cs needle)"

text \<open>
  \<^verbatim>\<open>s.split(sep)\<close> for a non-empty separator: the pieces between the occurrences of
  \<open>sep\<close>, found from the left. \<open>first_part\<close> is \<^verbatim>\<open>s.split(sep)[0]\<close> and \<open>last_part\<close>
  is \<^verbatim>\<open>s.split(sep)[-1]\<close>; the list is never empty.
\<close>

function split_from :: "string \<Rightarrow> string \<Rightarrow> string \<Rightarrow> string list" where
  "split_from sep acc [] = [rev acc]"
| "split_from sep acc (c # cs) =
     (if sep \<noteq> [] \<and> starts_with (c # cs) sep
      then rev acc # split_from sep [] (drop (length sep - 1) cs)
      else split_from sep (c # acc) cs)"
  by pat_completeness auto
termination
  by (relation "measure (\<lambda>(sep, acc, s). length s)") auto

definition split :: "string \<Rightarrow> string \<Rightarrow> string list" where
  "split sep s = split_from sep [] s"

definition first_part :: "string \<Rightarrow> string \<Rightarrow> string" where
  "first_part sep s = (case split sep s of [] \<Rightarrow> [] | x # _ \<Rightarrow> x)"

definition last_part :: "string \<Rightarrow> string \<Rightarrow> string" where
  "last_part sep s = (case rev (split sep s) of [] \<Rightarrow> [] | x # _ \<Rightarrow> x)"

definition iexact :: "string option \<Rightarrow> string \<Rightarrow> bool" where
  "iexact col v = (case col of None \<Rightarrow> False | Some s \<Rightarrow> lower s = lower v)"

definition icontains :: "string option \<Rightarrow> string \<Rightarrow> bool" where
  "icontains col v = (case col of None \<Rightarrow> False | Some s \<Rightarrow> contains (lower s) (lower v))"

subsection \<open>The Song table (models.py:4-148)\<close>

text \<open>
  One row of \<^verbatim>\<open>Song\<close>. \<open>song_id\<close> is Django's implicit primary key \<^verbatim>\<open>id\<close>. Nullable
  columns are options. \<^verbatim>\<open>created_at\<close> is not a field of the record: the table is kept
  as a list in the order of \<^verbatim>\<open>Meta.ordering = ['-created_at']\<close>, newest row first, so
  \<^verbatim>\<open>.first()\<close> on a filtered queryset is the first matching element of the list.
\<close>

record song =
  song_id :: nat
  track_id :: "string option"
  track_name :: "string option"
  artists :: "string option"
  album_name :: "string option"
  popularity :: "int option"
  track_genre :: "string option"
  duration_ms :: int
  danceability :: pyfloat
  energy :: pyfloat
  valence :: pyfloat
  acousticness :: pyfloat
  instrumentalness :: pyfloat
  speechiness :: "pyfloat option"
  liveness :: "pyfloat option"
  loudness :: pyfloat
  tempo :: pyfloat
  mode :: int
  key :: "int option"
  time_signature :: "int option"
  explicit :: bool
  is_acoustic :: bool
  is_instrumental :: bool
  is_hit :: "bool option"

text \<open>
  \<^verbatim>\<open>Song.save\<close> (models.py:137-148), the part before \<^verbatim>\<open>super().save()\<close>:
  \<^verbatim>\<open>
  if self.acousticness is not None: self.is_acoustic = self.acousticness > 0.5
  if self.instrumentalness is not None: self.is_instrumental = self.instrumentalness > 0.5
  if self.popularity is not None: self.is_hit = self.popularity >= 50
  \<close>
\<close>

definition song_save :: "song \<Rightarrow> song" where
  "song_save s =
     s\<lparr>is_acoustic := pyfloat_gt (acousticness s) 0.5,
       is_instrumental := pyfloat_gt (instrumentalness s) 0.5,
       is_hit := (case popularity s of None \<Rightarrow> is_hit s | Some p \<Rightarrow> Some (p \<ge> 50))\<rparr>"

subsection \<open>Predictions and audit log (models.py:151-269)\<close>

record prediction =
  prediction_id :: nat
  pred_song :: nat
  pred_is_hit :: "bool option"
  pred_confidence :: real
  pred_model_prediction :: string
  pred_model_confidence :: real
  pred_adjusted_by_dataset :: bool
  pred_dataset_label :: "string option"
  pred_dataset_popularity :: "int option"

subsection \<open>Resolved audio data\<close>

text \<open>
  The dictionary \<^verbatim>\<open>audio_data\<close> that the resolver hands to the view. Every dictionary
  the code builds (spotify_service.py:154, :200, :211, views.py:104, :110) has the
  metadata keys and the ten feature keys; the keys \<^verbatim>\<open>source\<close>, \<^verbatim>\<open>track_genre\<close> and
  \<^verbatim>\<open>is_hit_in_dataset\<close> are present only on some paths, so they are options
  (\<open>None\<close>: key absent, what \<^verbatim>\<open>.get\<close> returns). \<open>ad_track_id\<close>, \<open>ad_album_image\<close>,
  \<open>ad_spotify_url\<close> and \<open>ad_preview_url\<close> are options because the code stores Python's
  \<^verbatim>\<open>None\<close> under these keys.
\<close>

record audio_data =
  ad_track_id :: "string option"
  ad_title :: "string option"
  ad_artist :: "string option"
  ad_album :: string
  ad_album_image :: "string option"
  ad_spotify_url :: "string option"
  ad_preview_url :: "string option"
  ad_popularity :: int
  ad_duration_ms :: int
  ad_danceability :: pyfloat
  ad_energy :: pyfloat
  ad_valence :: pyfloat
  ad_acousticness :: pyfloat
  ad_instrumentalness :: pyfloat
  ad_explicit :: int
  ad_loudness :: pyfloat
  ad_tempo :: pyfloat
  ad_mode :: int
  ad_source :: "string option"
  ad_track_genre :: "string option"
  ad_is_hit_in_dataset :: "bool option"

subsection \<open>Reconciliation (views.py:194-224)\<close>

text \<open>
  \<^verbatim>\<open>
  is_hit_in_dataset = audio_data.get('is_hit_in_dataset')
  in_dataset = audio_data.get('source') == 'dataset'
  is_hit = model_hit; confidence = model_confidence; adjusted_by_dataset = False
  if in_dataset:
      if is_hit_in_dataset != model_hit:
          is_hit = is_hit_in_dataset
          confidence = max(60.0, model_confidence + 10.0)
          adjusted_by_dataset = True
      else:
          confidence = min(95.0, model_confidence + 5.0)
  \<close>
  The final label is a \<open>bool option\<close>: \<^verbatim>\<open>is_hit_in_dataset\<close> is \<^verbatim>\<open>None\<close> when the key is
  absent, and \<^verbatim>\<open>None != model_hit\<close> is true in Python.
\<close>

definition in_dataset :: "audio_data \<Rightarrow> bool" where
  "in_dataset ad = (ad_source ad = Some ''dataset'')"

record reconciled =
  final_is_hit :: "bool option"
  final_confidence :: real
  adjusted_by_dataset :: bool

definition reconcile :: "audio_data \<Rightarrow> bool \<Rightarrow> real \<Rightarrow> reconciled" where
  "reconcile ad model_hit model_confidence =
     (if in_dataset ad then
        (if ad_is_hit_in_dataset ad \<noteq> Some model_hit then
           \<lparr>final_is_hit = ad_is_hit_in_dataset ad,
            final_confidence = max 60 (model_confidence + 10),
            adjusted_by_dataset = True\<rparr>
         else
           \<lparr>final_is_hit = Some model_hit,
            final_confidence = min 95 (model_confidence + 5),
            adjusted_by_dataset = False\<rparr>)
      else
        \<lparr>final_is_hit = Some model_hit,
         final_confidence = model_confidence,
         adjusted_by_dataset = False\<rparr>)"

subsection \<open>The remote catalog (spotify_service.py:83-118)\<close>

text \<open>
  The catalog service is an external collaborator. \<open>remote\<close> gives the outcome of
  \<^verbatim>\<open>_make_request\<close> for the three endpoints the code calls, with the JSON document
  already typed: \<open>get_track\<close> for \<^verbatim>\<open>/tracks/{id}\<close>, \<open>get_features\<close> for
  \<^verbatim>\<open>/audio-features/{id}\<close> and \<open>search\<close> for \<^verbatim>\<open>/search?q=..&type=track&limit=..\<close>.
  \<open>Inl e\<close> is a raised exception. For \<open>get_features\<close>, \<open>Inr None\<close> is a falsy body
  (\<^verbatim>\<open>if features:\<close> fails); a body that lacks one of the nine keys raises
  \<^verbatim>\<open>KeyError\<close> inside the same \<^verbatim>\<open>try\<close> and is an \<open>Inl\<close>. Within one request the
  service answers a repeated query in the same way. Token handling is not modelled.
\<close>

record sp_track =
  sp_id :: string
  sp_name :: string
  sp_artists :: "string list"
  sp_album_name :: string
  sp_album_images :: "string list"
  sp_external_url :: string
  sp_preview_url :: "string option"
  sp_popularity :: "int option"
  sp_duration_ms :: int
  sp_explicit :: "bool option"

record sp_features =
  sf_duration_ms :: int
  sf_danceability :: real
  sf_energy :: real
  sf_valence :: real
  sf_acousticness :: real
  sf_instrumentalness :: real
  sf_loudness :: real
  sf_tempo :: real
  sf_mode :: int

record remote =
  get_track :: "string \<Rightarrow> error + sp_track"
  get_features :: "string \<Rightarrow> error + sp_features option"
  search :: "string \<Rightarrow> nat \<Rightarrow> error + sp_track list"

text \<open>The dictionary returned by \<^verbatim>\<open>get_track_info\<close> (spotify_service.py:107-118).\<close>

record track_info =
  ti_track_id :: string
  ti_title :: string
  ti_artist :: string
  ti_album :: string
  ti_album_image :: "string option"
  ti_spotify_url :: string
  ti_preview_url :: "string option"
  ti_popularity :: int
  ti_duration_ms :: int
  ti_explicit :: int

definition track_info_of :: "string \<Rightarrow> sp_track \<Rightarrow> track_info" where
  "track_info_of tid t =
     \<lparr>ti_track_id = tid,
      ti_title = sp_name t,
      ti_artist = join '', '' (sp_artists t),
      ti_album = sp_album_name t,
      ti_album_image = (case sp_album_images t of [] \<Rightarrow> None | u # _ \<Rightarrow> Some u),
      ti_spotify_url = sp_external_url t,
      ti_preview_url = sp_preview_url t,
      ti_popularity = (case sp_popularity t of None \<Rightarrow> 0 | Some p \<Rightarrow> p),
      ti_duration_ms = sp_duration_ms t,
      ti_explicit = (if sp_explicit t = Some True then 1 else 0)\<rparr>"

definition get_track_info :: "remote \<Rightarrow> string \<Rightarrow> error + track_info" where
  "get_track_info r tid =
     (case get_track r tid of Inl e \<Rightarrow> Inl e | Inr t \<Rightarrow> Inr (track_info_of tid t))"

subsection \<open>The database\<close>

datatype json =
    JNull
  | JBool bool
  | JInt int
  | JFloat real
  | JStr string
  | JArr "json list"
  | JObj "(string \<times> json) list"

text \<open>
  The body of a request to \<^verbatim>\<open>/api/predict/spotify/\<close>: the six keys the view reads
  (\<open>None\<close>: key absent). The body of a manual request is a JSON object, kept as an
  association list that \<open>map_of\<close> reads.
\<close>

record spotify_request =
  rq_track_id :: "string option"
  rq_url :: "string option"
  rq_track_url :: "string option"
  rq_spotify_url :: "string option"
  rq_title :: "string option"
  rq_artist :: "string option"

text \<open>The ten model inputs (views.py:177-188 and views.py:455-466).\<close>

record feature_set =
  fs_duration_ms :: int
  fs_danceability :: pyfloat
  fs_energy :: pyfloat
  fs_valence :: pyfloat
  fs_acousticness :: pyfloat
  fs_instrumentalness :: pyfloat
  fs_explicit :: pyfloat
  fs_loudness :: pyfloat
  fs_tempo :: pyfloat
  fs_mode :: int

text \<open>The response bodies built at views.py:309-333 and views.py:503-510.\<close>

record spotify_response =
  rs_prediction :: string
  rs_confidence :: real
  rs_title :: "string option"
  rs_artist :: "string option"
  rs_album :: string
  rs_album_image :: "string option"
  rs_spotify_url :: "string option"
  rs_preview_url :: "string option"
  rs_popularity :: int
  rs_track_id :: "string option"
  rs_features :: feature_set
  rs_prediction_id :: nat
  rs_song_id :: nat
  rs_in_dataset :: bool
  rs_model_prediction :: string
  rs_model_confidence :: real
  rs_dataset_label :: "string option"
  rs_dataset_popularity :: "int option"

record manual_response =
  rm_prediction :: string
  rm_confidence :: real
  rm_song_title :: json
  rm_song_id :: nat
  rm_prediction_id :: nat
  rm_features :: feature_set

datatype request_payload =
    SpotifyRequest spotify_request
  | ManualRequest "(string \<times> json) list"

datatype response_payload =
    SpotifyResponse spotify_response
  | ManualResponse manual_response

record audit_log =
  audit_id :: nat
  audit_prediction :: nat
  audit_request :: request_payload
  audit_response :: response_payload

record db =
  songs :: "song list"
  predictions :: "prediction list"
  audit_logs :: "audit_log list"
  next_song_id :: nat
  next_prediction_id :: nat
  next_audit_id :: nat

text \<open>
  An ORM write can raise (a constraint violation, a lost connection); the views catch
  it with \<^verbatim>\<open>except Exception\<close>. \<open>wfail w\<close> says that the write \<open>w\<close> raises during the
  request at hand. No view opens a transaction (there is no \<^verbatim>\<open>transaction.atomic\<close>
  in the code, and Django commits each statement by default), so each write that
  succeeds is committed on its own.
\<close>

datatype db_write = SongInsert | SongUpdate | PredictionInsert | AuditInsert

text \<open>\<^verbatim>\<open>Song.objects.create(**fields)\<close>: \<^verbatim>\<open>save()\<close> computes the flags, the row gets its key.\<close>

definition song_create :: "(db_write \<Rightarrow> bool) \<Rightarrow> db \<Rightarrow> song \<Rightarrow> error + song \<times> db" where
  "song_create wfail d s =
     (if wfail SongInsert then Inl DatabaseError
      else let s' = song_save (s\<lparr>song_id := next_song_id d\<rparr>)
           in Inr (s', d\<lparr>songs := s' # songs d, next_song_id := Suc (next_song_id d)\<rparr>))"

text \<open>\<^verbatim>\<open>song.save()\<close> on a row that exists: the row with its key is replaced.\<close>

definition song_update :: "(db_write \<Rightarrow> bool) \<Rightarrow> db \<Rightarrow> song \<Rightarrow> error + song \<times> db" where
  "song_update wfail d s =
     (if wfail SongUpdate then Inl DatabaseError
      else let s' = song_save s
           in Inr (s', d\<lparr>songs := map (\<lambda>x. if song_id x = song_id s' then s' else x) (songs d)\<rparr>))"

definition prediction_create ::
  "(db_write \<Rightarrow> bool) \<Rightarrow> db \<Rightarrow> prediction \<Rightarrow> error + prediction \<times> db" where
  "prediction_create wfail d p =
     (if wfail PredictionInsert then Inl DatabaseError
      else let p' = p\<lparr>prediction_id := next_prediction_id d\<rparr>
           in Inr (p', d\<lparr>predictions := p' # predictions d,
                          next_prediction_id := Suc (next_prediction_id d)\<rparr>))"

definition audit_create ::
  "(db_write \<Rightarrow> bool) \<Rightarrow> db \<Rightarrow> nat \<Rightarrow> request_payload \<Rightarrow> response_payload \<Rightarrow> error + db" where
  "audit_create wfail d pid rq rs =
     (if wfail AuditInsert then Inl DatabaseError
      else Inr (d\<lparr>audit_logs :=
                    \<lparr>audit_id = next_audit_id d, audit_prediction = pid,
                     audit_request = rq, audit_response = rs\<rparr> # audit_logs d,
                  next_audit_id := Suc (next_audit_id d)\<rparr>))"

subsection \<open>Reference-dataset lookup (spotify_service.py:120-172)\<close>

text \<open>
  \<^verbatim>\<open>
  track_clean = track_name.strip()
  artist_first = artist_name.strip().split(',')[0].strip()
  song = Song.objects.filter(track_name__iexact=track_clean,
                             artists__icontains=artist_first).first()
  if not song:
      song = Song.objects.filter(track_name__icontains=track_clean,
                                 artists__icontains=artist_first).first()
  if not song: return None
  \<close>
\<close>

definition artist_first :: "string \<Rightarrow> string" where
  "artist_first artist_name = strip (first_part '','' (strip artist_name))"

definition matches_exact :: "string \<Rightarrow> string \<Rightarrow> song \<Rightarrow> bool" where
  "matches_exact title artist s =
     (iexact (track_name s) (strip title) \<and> icontains (artists s) (artist_first artist))"

definition matches_partial :: "string \<Rightarrow> string \<Rightarrow> song \<Rightarrow> bool" where
  "matches_partial title artist s =
     (icontains (track_name s) (strip title) \<and> icontains (artists s) (artist_first artist))"

definition find_song :: "db \<Rightarrow> string \<Rightarrow> string \<Rightarrow> song option" where
  "find_song d title artist =
     (case find (matches_exact title artist) (songs d) of
        Some s \<Rightarrow> Some s
      | None \<Rightarrow> find (matches_partial title artist) (songs d))"

text \<open>The dictionary built at spotify_service.py:154-172.\<close>

record dataset_features =
  df_duration_ms :: int
  df_danceability :: pyfloat
  df_energy :: pyfloat
  df_valence :: pyfloat
  df_acousticness :: pyfloat
  df_instrumentalness :: pyfloat
  df_loudness :: pyfloat
  df_tempo :: pyfloat
  df_mode :: int
  df_explicit :: int
  df_source :: string
  df_track_genre :: string
  df_popularity :: int
  df_is_hit_in_dataset :: bool
  df_title :: "string option"
  df_artist :: "string option"
  df_album :: string

text \<open>\<^verbatim>\<open>x or default\<close> on an optional string: \<^verbatim>\<open>None\<close> and the empty string are falsy.\<close>

definition str_or :: "string option \<Rightarrow> string \<Rightarrow> string" where
  "str_or x dflt = (case x of None \<Rightarrow> dflt | Some v \<Rightarrow> if v = [] then dflt else v)"

definition dataset_features_of :: "song \<Rightarrow> dataset_features" where
  "dataset_features_of s =
     \<lparr>df_duration_ms = duration_ms s,
      df_danceability = danceability s,
      df_energy = energy s,
      df_valence = valence s,
      df_acousticness = acousticness s,
      df_instrumentalness = instrumentalness s,
      df_loudness = loudness s,
      df_tempo = tempo s,
      df_mode = mode s,
      df_explicit = (if explicit s then 1 else 0),
      df_source = ''dataset'',
      df_track_genre = str_or (track_genre s) ''unknown'',
      df_popularity = (case popularity s of None \<Rightarrow> 0 | Some p \<Rightarrow> p),
      df_is_hit_in_dataset = (is_hit s = Some True),
      df_title = track_name s,
      df_artist = artists s,
      df_album = str_or (album_name s) ''Unknown''\<rparr>"

definition get_audio_features_from_dataset ::
  "db \<Rightarrow> string \<Rightarrow> string \<Rightarrow> dataset_features option" where
  "get_audio_features_from_dataset d track_name' artist_name =
     map_option dataset_features_of (find_song d track_name' artist_name)"

subsection \<open>Resolution by identifier (spotify_service.py:174-233)\<close>

text \<open>\<^verbatim>\<open>{**track_info, **dataset_features}\<close>: the keys of the second win.\<close>

definition merge_dataset :: "track_info \<Rightarrow> dataset_features \<Rightarrow> audio_data" where
  "merge_dataset ti df =
     \<lparr>ad_track_id = Some (ti_track_id ti),
      ad_title = df_title df,
      ad_artist = df_artist df,
      ad_album = df_album df,
      ad_album_image = ti_album_image ti,
      ad_spotify_url = Some (ti_spotify_url ti),
      ad_preview_url = ti_preview_url ti,
      ad_popularity = df_popularity df,
      ad_duration_ms = df_duration_ms df,
      ad_danceability = df_danceability df,
      ad_energy = df_energy df,
      ad_valence = df_valence df,
      ad_acousticness = df_acousticness df,
      ad_instrumentalness = df_instrumentalness df,
      ad_explicit = df_explicit df,
      ad_loudness = df_loudness df,
      ad_tempo = df_tempo df,
      ad_mode = df_mode df,
      ad_source = Some (df_source df),
      ad_track_genre = Some (df_track_genre df),
      ad_is_hit_in_dataset = Some (df_is_hit_in_dataset df)\<rparr>"

text \<open>The dictionary of spotify_service.py:211-223: metadata and the nine remote features.\<close>

definition merge_remote :: "track_info \<Rightarrow> sp_features \<Rightarrow> audio_data" where
  "merge_remote ti f =
     \<lparr>ad_track_id = Some (ti_track_id ti),
      ad_title = Some (ti_title ti),
      ad_artist = Some (ti_artist ti),
      ad_album = ti_album ti,
      ad_album_image = ti_album_image ti,
      ad_spotify_url = Some (ti_spotify_url ti),
      ad_preview_url = ti_preview_url ti,
      ad_popularity = ti_popularity ti,
      ad_duration_ms = sf_duration_ms f,
      ad_danceability = Fin (sf_danceability f),
      ad_energy = Fin (sf_energy f),
      ad_valence = Fin (sf_valence f),
      ad_acousticness = Fin (sf_acousticness f),
      ad_instrumentalness = Fin (sf_instrumentalness f),
      ad_explicit = ti_explicit ti,
      ad_loudness = Fin (sf_loudness f),
      ad_tempo = Fin (sf_tempo f),
      ad_mode = sf_mode f,
      ad_source = Some ''spotify_api'',
      ad_track_genre = None,
      ad_is_hit_in_dataset = None\<rparr>"

definition get_audio_features :: "remote \<Rightarrow> db \<Rightarrow> string \<Rightarrow> error + audio_data" where
  "get_audio_features r d tid =
     (case get_track_info r tid of
        Inl e \<Rightarrow> Inl e
      | Inr ti \<Rightarrow>
          (case get_audio_features_from_dataset d (ti_title ti) (ti_artist ti) of
             Some df \<Rightarrow> Inr (merge_dataset ti df)
           | None \<Rightarrow>
               (case get_features r tid of
                  Inr (Some f) \<Rightarrow> Inr (merge_remote ti f)
                | _ \<Rightarrow> Inl FeaturesUnavailableError)))"

text \<open>An audio-data dictionary used in the examples below.\<close>

definition example_audio :: audio_data where
  "example_audio =
     \<lparr>ad_track_id = Some ''5SuOikwiRyPMVoIQDJUgSV'', ad_title = Some ''Comedy'',
      ad_artist = Some ''Gen Hoshino'', ad_album = ''Comedy'', ad_album_image = None,
      ad_spotify_url = None, ad_preview_url = None, ad_popularity = 73,
      ad_duration_ms = 230666, ad_danceability = Fin 0.676, ad_energy = Fin 0.461,
      ad_valence = Fin 0.715, ad_acousticness = Fin 0.0322,
      ad_instrumentalness = Fin 0.00000101, ad_explicit = 0, ad_loudness = Fin (-6.746),
      ad_tempo = Fin 87.917, ad_mode = 0, ad_source = Some ''dataset'',
      ad_track_genre = Some ''acoustic'', ad_is_hit_in_dataset = Some True\<rparr>"

text \<open>A stored row, a database and a catalog used in the examples below.\<close>

definition example_song :: song where
  "example_song =
     \<lparr>song_id = 1, track_id = Some ''5SuOikwiRyPMVoIQDJUgSV'', track_name = Some ''Comedy'',
      artists = Some ''Gen Hoshino'', album_name = Some ''Comedy'', popularity = Some 73,
      track_genre = Some ''acoustic'', duration_ms = 230666, danceability = Fin 0.676,
      energy = Fin 0.461, valence = Fin 0.715, acousticness = Fin 0.0322,
      instrumentalness = Fin 0.00000101, speechiness = None, liveness = None,
      loudness = Fin (-6.746), tempo = Fin 87.917, mode = 0, key = None,
      time_signature = None, explicit = False, is_acoustic = False,
      is_instrumental = False, is_hit = Some True\<rparr>"


definition empty_db :: db where
  "empty_db =
     \<lparr>songs = [], predictions = [], audit_logs = [],
      next_song_id = 1, next_prediction_id = 1, next_audit_id = 1\<rparr>"

definition example_track :: sp_track where
  "example_track =
     \<lparr>sp_id = ''5SuOikwiRyPMVoIQDJUgSV'', sp_name = ''Comedy'',
      sp_artists = [''Gen Hoshino''], sp_album_name = ''Comedy'', sp_album_images = [],
      sp_external_url = ''https://open.spotify.com/track/5SuOikwiRyPMVoIQDJUgSV'',
      sp_preview_url = None, sp_popularity = Some 80, sp_duration_ms = 230666,
      sp_explicit = Some False\<rparr>"

definition example_sp_features :: sp_features where
  "example_sp_features =
     \<lparr>sf_duration_ms = 230666, sf_danceability = 0.676, sf_energy = 0.461,
      sf_valence = 0.715, sf_acousticness = 0.0322, sf_instrumentalness = 0.00000101,
      sf_loudness = -6.746, sf_tempo = 87.917, sf_mode = 0\<rparr>"

text \<open>
  A catalog that knows every identifier as the example track, answers every search
  with that track, and serves audio features only for the identifier \<open>''open''\<close>.
\<close>

definition example_remote :: remote where
  "example_remote =
     \<lparr>get_track = (\<lambda>tid. Inr example_track),
      get_features = (\<lambda>tid. if tid = ''open'' then Inr (Some example_sp_features)
                              else Inl RemoteError),
      search = (\<lambda>q n. Inr (take n [example_track]))\<rparr>"

subsection \<open>Classifier adapter (inference.py)\<close>

text \<open>
  The trained classifier is an artifact outside the code: \<open>predict\<close> is the class label
  of \<^verbatim>\<open>model.predict(features)[0]\<close>, and \<open>predict_proba\<close> is the probability row
  \<^verbatim>\<open>model.predict_proba(features)[0]\<close>, one entry per class in the order of the
  classes (for the labels 0 and 1 the entry at index 1 is the positive class).
  \<open>predict_proba = None\<close> is a classifier without that method (\<^verbatim>\<open>AttributeError\<close>).
  The model file is a \<open>classifier option\<close>: \<open>None\<close> is a missing file. The cache
  \<^verbatim>\<open>MODEL\<close> of \<^verbatim>\<open>load_model\<close> holds the same classifier on every call and is left out.
\<close>

record classifier =
  predict :: "pyfloat list \<Rightarrow> int"
  predict_proba :: "(pyfloat list \<Rightarrow> real list) option"

definition load_model :: "classifier option \<Rightarrow> error + classifier" where
  "load_model model_file =
     (case model_file of None \<Rightarrow> Inl ModelNotFoundError | Some m \<Rightarrow> Inr m)"

text \<open>
  \<^verbatim>\<open>prepare_features\<close> (inference.py:66-77): the ten values in the order of training,
  each converted with \<^verbatim>\<open>float()\<close>. Both callers pass a dictionary that holds numbers
  under all ten keys, so the conversion cannot raise.
\<close>

definition prepare_features :: "feature_set \<Rightarrow> pyfloat list" where
  "prepare_features u =
     [Fin (real_of_int (fs_duration_ms u)), fs_danceability u, fs_energy u, fs_valence u,
      fs_acousticness u, fs_instrumentalness u, fs_explicit u, fs_loudness u,
      fs_tempo u, Fin (real_of_int (fs_mode u))]"

text \<open>
  \<^verbatim>\<open>round(x, 2)\<close>: the closest multiple of 0.01, a tie going to the even multiple.
\<close>

definition round_half_even :: "real \<Rightarrow> int" where
  "round_half_even y =
     (let f = \<lfloor>y\<rfloor>; r = y - real_of_int f
      in if r < 1 / 2 then f
         else if 1 / 2 < r then f + 1
         else if even f then f else f + 1)"

definition py_round2 :: "real \<Rightarrow> real" where
  "py_round2 x = real_of_int (round_half_even (x * 100)) / 100"

text \<open>
  \<^verbatim>\<open>
  model = load_model()
  prediction = model.predict(features)[0]
  try:
      proba = model.predict_proba(features)[0]
      confidence = proba[1] if len(proba) > 1 else proba[0]
  except AttributeError:
      confidence = 0.5
  is_hit = bool(prediction)
  confidence_percent = round(confidence * 100, 2)
  \<close>
  An empty probability row raises \<^verbatim>\<open>IndexError\<close>, which the \<^verbatim>\<open>try\<close> does not catch.
\<close>

definition predict_song :: "classifier option \<Rightarrow> pyfloat list \<Rightarrow> error + bool \<times> real" where
  "predict_song model_file features =
     (case load_model model_file of
        Inl e \<Rightarrow> Inl e
      | Inr m \<Rightarrow>
          (let prediction = predict m features in
           case (case predict_proba m of
                   None \<Rightarrow> Inr (1 / 2)
                 | Some pp \<Rightarrow>
                     (let proba = pp features in
                      if length proba > 1 then Inr (proba ! 1)
                      else (case proba of [] \<Rightarrow> Inl (PyException ''IndexError'')
                                        | p0 # _ \<Rightarrow> Inr p0))) of
             Inl e \<Rightarrow> Inl e
           | Inr confidence \<Rightarrow> Inr (prediction \<noteq> 0, py_round2 (confidence * 100))))"

text \<open>A classifier for the examples: label 1, probabilities 0.37655 and 0.62345.\<close>

definition example_classifier :: classifier where
  "example_classifier =
     \<lparr>predict = (\<lambda>v. 1), predict_proba = Some (\<lambda>v. [0.37655, 0.62345])\<rparr>"

definition example_features :: feature_set where
  "example_features =
     \<lparr>fs_duration_ms = 230666, fs_danceability = Fin 0.676, fs_energy = Fin 0.461,
      fs_valence = Fin 0.715, fs_acousticness = Fin 0.0322,
      fs_instrumentalness = Fin 0.00000101, fs_explicit = Fin 0, fs_loudness = Fin (-6.746),
      fs_tempo = Fin 87.917, fs_mode = 0\<rparr>"

subsection \<open>Python conversions\<close>

text \<open>
  \<^verbatim>\<open>int(x)\<close> and \<^verbatim>\<open>float(x)\<close> on a JSON value; \<open>None\<close> is \<^verbatim>\<open>ValueError\<close> or
  \<^verbatim>\<open>TypeError\<close>, which the callers do not tell apart. On numbers and booleans the
  conversions are written out (\<^verbatim>\<open>int()\<close> of a float truncates towards zero). How the
  runtime reads a string as a number, and how \<^verbatim>\<open>str()\<close> prints a value, is a parameter
  \<open>pyrt\<close> of the model. The literals \<^verbatim>\<open>NaN\<close> and \<^verbatim>\<open>Infinity\<close>, which \<^verbatim>\<open>json.loads\<close>
  accepts, are not JSON values of the model.
\<close>

record pyrt =
  int_of_str :: "string \<Rightarrow> int option"
  float_of_str :: "string \<Rightarrow> pyfloat option"
  str_of :: "json \<Rightarrow> string"

definition trunc :: "real \<Rightarrow> int" where
  "trunc x = (if 0 \<le> x then \<lfloor>x\<rfloor> else \<lceil>x\<rceil>)"

fun py_int :: "pyrt \<Rightarrow> json \<Rightarrow> int option" where
  "py_int rt JNull = None"
| "py_int rt (JBool b) = Some (if b then 1 else 0)"
| "py_int rt (JInt n) = Some n"
| "py_int rt (JFloat x) = Some (trunc x)"
| "py_int rt (JStr s) = int_of_str rt s"
| "py_int rt (JArr xs) = None"
| "py_int rt (JObj kvs) = None"

fun py_float :: "pyrt \<Rightarrow> json \<Rightarrow> pyfloat option" where
  "py_float rt JNull = None"
| "py_float rt (JBool b) = Some (Fin (if b then 1 else 0))"
| "py_float rt (JInt n) = Some (Fin (real_of_int n))"
| "py_float rt (JFloat x) = Some (Fin x)"
| "py_float rt (JStr s) = float_of_str rt s"
| "py_float rt (JArr xs) = None"
| "py_float rt (JObj kvs) = None"

text \<open>
  A runtime for the examples. It reads plain decimal literals as Python does: optional
  surrounding whitespace, an optional sign, digits, and for \<^verbatim>\<open>float()\<close> an optional
  decimal point.
\<close>

definition is_digit :: "char \<Rightarrow> bool" where
  "is_digit c = (let n = (of_char c :: nat) in 48 \<le> n \<and> n \<le> 57)"

definition nat_of_digits :: "string \<Rightarrow> nat" where
  "nat_of_digits ds = foldl (\<lambda>acc c. 10 * acc + ((of_char c :: nat) - 48)) 0 ds"

definition sign_and_rest :: "string \<Rightarrow> int \<times> string" where
  "sign_and_rest t =
     (case t of
        [] \<Rightarrow> (1, [])
      | c # cs \<Rightarrow> if c = CHR ''-'' then (- 1, cs) else if c = CHR ''+'' then (1, cs) else (1, t))"

definition decimal_int :: "string \<Rightarrow> int option" where
  "decimal_int s =
     (let (sg, ds) = sign_and_rest (strip s)
      in if ds \<noteq> [] \<and> list_all is_digit ds then Some (sg * int (nat_of_digits ds)) else None)"

definition decimal_float :: "string \<Rightarrow> pyfloat option" where
  "decimal_float s =
     (let (sg, ds) = sign_and_rest (strip s);
          ip = takeWhile (\<lambda>c. c \<noteq> CHR ''.'') ds;
          fp = drop 1 (dropWhile (\<lambda>c. c \<noteq> CHR ''.'') ds)
      in if (ip \<noteq> [] \<or> fp \<noteq> []) \<and> list_all is_digit ip \<and> list_all is_digit fp
         then Some (Fin (real_of_int sg *
                (real (nat_of_digits ip) + real (nat_of_digits fp) / 10 ^ length fp)))
         else None)"

definition decimal_rt :: pyrt where
  "decimal_rt =
     \<lparr>int_of_str = decimal_int, float_of_str = decimal_float,
      str_of = (\<lambda>j. case j of JStr s \<Rightarrow> s | _ \<Rightarrow> ''?'')\<rparr>"

subsection \<open>Validation of a manual request (views.py:440-468)\<close>

definition required_fields :: "string list" where
  "required_fields =
     [''duration_ms'', ''danceability'', ''energy'', ''valence'', ''acousticness'',
      ''instrumentalness'', ''explicit'', ''loudness'', ''tempo'', ''mode'']"

text \<open>\<^verbatim>\<open>int(data[k])\<close> and \<^verbatim>\<open>float(data[k])\<close>.\<close>

definition int_field :: "pyrt \<Rightarrow> (string \<times> json) list \<Rightarrow> string \<Rightarrow> int option" where
  "int_field rt data k = (case map_of data k of None \<Rightarrow> None | Some j \<Rightarrow> py_int rt j)"

definition float_field :: "pyrt \<Rightarrow> (string \<times> json) list \<Rightarrow> string \<Rightarrow> pyfloat option" where
  "float_field rt data k = (case map_of data k of None \<Rightarrow> None | Some j \<Rightarrow> py_float rt j)"

text \<open>
  \<^verbatim>\<open>
  missing = [f for f in required_fields if f not in data]
  if missing: return JsonResponse({'error': f'Missing required fields: {missing}', ..}, status=400)
  try:
      validated = {'duration_ms': int(data['duration_ms']),
                   'danceability': float(data['danceability']), ...,
                   'explicit': float(data['explicit']), ..., 'mode': int(data['mode'])}
  except (ValueError, TypeError) as e:
      return JsonResponse({'error': f'Invalid value: {str(e)}'}, status=400)
  \<close>
\<close>

definition convert_fields :: "pyrt \<Rightarrow> (string \<times> json) list \<Rightarrow> feature_set option" where
  "convert_fields rt data =
     do {
       v_duration_ms \<leftarrow> int_field rt data ''duration_ms'';
       v_danceability \<leftarrow> float_field rt data ''danceability'';
       v_energy \<leftarrow> float_field rt data ''energy'';
       v_valence \<leftarrow> float_field rt data ''valence'';
       v_acousticness \<leftarrow> float_field rt data ''acousticness'';
       v_instrumentalness \<leftarrow> float_field rt data ''instrumentalness'';
       v_explicit \<leftarrow> float_field rt data ''explicit'';
       v_loudness \<leftarrow> float_field rt data ''loudness'';
       v_tempo \<leftarrow> float_field rt data ''tempo'';
       v_mode \<leftarrow> int_field rt data ''mode'';
       Some \<lparr>fs_duration_ms = v_duration_ms, fs_danceability = v_danceability,
             fs_energy = v_energy, fs_valence = v_valence,
             fs_acousticness = v_acousticness, fs_instrumentalness = v_instrumentalness,
             fs_explicit = v_explicit, fs_loudness = v_loudness, fs_tempo = v_tempo,
             fs_mode = v_mode\<rparr>
     }"

definition validate :: "pyrt \<Rightarrow> (string \<times> json) list \<Rightarrow> error + feature_set" where
  "validate rt data =
     (let missing = filter (\<lambda>f. map_of data f = None) required_fields
      in if missing \<noteq> [] then Inl (MissingFeatureError missing)
         else (case convert_fields rt data of
                 None \<Rightarrow> Inl InvalidFeatureTypeError
               | Some validated \<Rightarrow> Inr validated))"



text \<open>Request bodies for the examples.\<close>

definition example_manual :: "(string \<times> json) list" where
  "example_manual =
     [(''duration_ms'', JInt 230666), (''danceability'', JFloat 0.676),
      (''energy'', JFloat 0.461), (''valence'', JFloat 0.715),
      (''acousticness'', JFloat 0.0322), (''instrumentalness'', JFloat 0.00000101),
      (''explicit'', JInt 0), (''loudness'', JFloat (-6.746)), (''tempo'', JFloat 87.917),
      (''mode'', JInt 0)]"




subsection \<open>Catalog search (spotify_service.py:235-272)\<close>

record search_result =
  sr_id :: string
  sr_title :: string
  sr_artist :: string
  sr_album :: string
  sr_album_image :: "string option"
  sr_duration_ms :: int
  sr_explicit :: bool
  sr_preview_url :: "string option"
  sr_spotify_url :: string
  sr_popularity :: int
  sr_in_dataset :: bool

text \<open>
  \<^verbatim>\<open>
  in_dataset = Song.objects.filter(track_name__iexact=track_name.strip(),
                                   artists__icontains=artist_first).exists()
  \<close>
\<close>

definition search_result_of :: "db \<Rightarrow> sp_track \<Rightarrow> search_result" where
  "search_result_of d t =
     (let artist_name = join '', '' (sp_artists t)
      in \<lparr>sr_id = sp_id t,
          sr_title = sp_name t,
          sr_artist = artist_name,
          sr_album = sp_album_name t,
          sr_album_image = (case sp_album_images t of [] \<Rightarrow> None | u # _ \<Rightarrow> Some u),
          sr_duration_ms = sp_duration_ms t,
          sr_explicit = (sp_explicit t = Some True),
          sr_preview_url = sp_preview_url t,
          sr_spotify_url = sp_external_url t,
          sr_popularity = (case sp_popularity t of None \<Rightarrow> 0 | Some p \<Rightarrow> p),
          sr_in_dataset =
            list_ex (\<lambda>s. iexact (track_name s) (strip (sp_name t))
                          \<and> icontains (artists s) (strip (first_part '','' artist_name)))
                    (songs d)\<rparr>)"

text \<open>
  \<^verbatim>\<open>tracks.sort(key=lambda x: (not x['in_dataset'], -x['popularity']))\<close>: a stable sort
  on pairs ordered lexicographically, \<open>False\<close> before \<open>True\<close>.
\<close>

definition search_tracks :: "remote \<Rightarrow> db \<Rightarrow> string \<Rightarrow> nat \<Rightarrow> error + search_result list" where
  "search_tracks r d query limit =
     (case search r query limit of
        Inl e \<Rightarrow> Inl e
      | Inr items \<Rightarrow>
          Inr (sort_key (\<lambda>x. (\<not> sr_in_dataset x, - sr_popularity x))
                 (map (search_result_of d) items)))"

subsection \<open>Resolution of a request (views.py:67-174)\<close>

text \<open>A Python string or \<^verbatim>\<open>None\<close> in a condition: \<^verbatim>\<open>None\<close> and \<^verbatim>\<open>''\<close> are falsy.\<close>

definition truthy :: "string option \<Rightarrow> bool" where
  "truthy x = (case x of None \<Rightarrow> False | Some v \<Rightarrow> v \<noteq> [])"

text \<open>
  \<^verbatim>\<open>data.get('track_id') or data.get('url') or data.get('track_url') or
  data.get('spotify_url')\<close>: the first truthy value; \<open>None\<close> when all are falsy.
\<close>

definition track_input :: "spotify_request \<Rightarrow> string option" where
  "track_input data =
     (case filter truthy [rq_track_id data, rq_url data, rq_track_url data, rq_spotify_url data] of
        [] \<Rightarrow> None
      | x # _ \<Rightarrow> x)"

text \<open>
  \<^verbatim>\<open>
  input_str = input_str.strip()
  if 'open.spotify.com/track/' in input_str:
      return input_str.split('track/')[-1].split('?')[0].split('/')[0]
  if input_str.startswith('spotify:track:'):
      return input_str.split(':')[-1]
  return input_str
  \<close>
\<close>

definition extract_track_id :: "string \<Rightarrow> string" where
  "extract_track_id input_str =
     (let s = strip input_str
      in if contains s ''open.spotify.com/track/''
         then first_part ''/'' (first_part ''?'' (last_part ''track/'' s))
         else if starts_with s ''spotify:track:'' then last_part '':'' s
         else s)"

text \<open>The dictionary of views.py:110-120: dataset data only, no catalog match.\<close>

definition dataset_only :: "dataset_features \<Rightarrow> audio_data" where
  "dataset_only df =
     \<lparr>ad_track_id = None,
      ad_title = df_title df,
      ad_artist = df_artist df,
      ad_album = df_album df,
      ad_album_image = None,
      ad_spotify_url = None,
      ad_preview_url = None,
      ad_popularity = df_popularity df,
      ad_duration_ms = df_duration_ms df,
      ad_danceability = df_danceability df,
      ad_energy = df_energy df,
      ad_valence = df_valence df,
      ad_acousticness = df_acousticness df,
      ad_instrumentalness = df_instrumentalness df,
      ad_explicit = df_explicit df,
      ad_loudness = df_loudness df,
      ad_tempo = df_tempo df,
      ad_mode = df_mode df,
      ad_source = Some (df_source df),
      ad_track_genre = Some (df_track_genre df),
      ad_is_hit_in_dataset = Some (df_is_hit_in_dataset df)\<rparr>"

text \<open>
  The loop of views.py:133-144: the first search result that is tagged as in the
  dataset and whose resolution by identifier does not raise.
\<close>

fun first_in_dataset ::
  "remote \<Rightarrow> db \<Rightarrow> search_result list \<Rightarrow> (string \<times> audio_data) option" where
  "first_in_dataset r d [] = None"
| "first_in_dataset r d (x # xs) =
     (if sr_in_dataset x then
        (case get_audio_features r d (sr_id x) of
           Inr ad \<Rightarrow> Some (sr_id x, ad)
         | Inl e \<Rightarrow> first_in_dataset r d xs)
      else first_in_dataset r d xs)"

text \<open>The hint of views.py:153-157: \<^verbatim>\<open>search_results[:3]\<close> as (id, title, artist).\<close>

definition hints :: "search_result list \<Rightarrow> (string \<times> string \<times> string) list" where
  "hints results = map (\<lambda>x. (sr_id x, sr_title x, sr_artist x)) (take 3 results)"

definition resolve_by_title ::
  "remote \<Rightarrow> db \<Rightarrow> string \<Rightarrow> string \<Rightarrow> error + string option \<times> audio_data" where
  "resolve_by_title r d title artist =
     (case get_audio_features_from_dataset d title artist of
        Some df \<Rightarrow>
          (case search_tracks r d (title @ '' '' @ artist) 1 of
             Inl e \<Rightarrow> Inl e
           | Inr [] \<Rightarrow> Inr (None, dataset_only df)
           | Inr (x # xs) \<Rightarrow>
               (case get_track_info r (sr_id x) of
                  Inl e \<Rightarrow> Inl e
                | Inr ti \<Rightarrow> Inr (Some (sr_id x), merge_dataset ti df)))
      | None \<Rightarrow>
          (case search_tracks r d (title @ '' '' @ artist) 5 of
             Inl e \<Rightarrow> Inl e
           | Inr [] \<Rightarrow> Inl NotFoundOnSpotify
           | Inr (x # xs) \<Rightarrow>
               (case first_in_dataset r d (x # xs) of
                  Some (tid, ad) \<Rightarrow> Inr (Some tid, ad)
                | None \<Rightarrow> Inl (NotInTrainingDataError (hints (x # xs))))))"

definition resolve ::
  "remote \<Rightarrow> db \<Rightarrow> spotify_request \<Rightarrow> error + string option \<times> audio_data" where
  "resolve r d data =
     (case track_input data of
        Some inp \<Rightarrow>
          (let tid = extract_track_id inp
           in case get_audio_features r d tid of
                Inl e \<Rightarrow> Inl e
              | Inr ad \<Rightarrow> Inr (Some tid, ad))
      | None \<Rightarrow>
          (if truthy (rq_title data) \<and> truthy (rq_artist data)
           then resolve_by_title r d (strip (str_or (rq_title data) []))
                                     (strip (str_or (rq_artist data) []))
           else Inl MissingInformation))"

subsection \<open>Prediction and persistence (views.py:176-342)\<close>

definition model_input_of :: "audio_data \<Rightarrow> feature_set" where
  "model_input_of ad =
     \<lparr>fs_duration_ms = ad_duration_ms ad,
      fs_danceability = ad_danceability ad,
      fs_energy = ad_energy ad,
      fs_valence = ad_valence ad,
      fs_acousticness = ad_acousticness ad,
      fs_instrumentalness = ad_instrumentalness ad,
      fs_explicit = Fin (real_of_int (ad_explicit ad)),
      fs_loudness = ad_loudness ad,
      fs_tempo = ad_tempo ad,
      fs_mode = ad_mode ad\<rparr>"

text \<open>
  The field values of \<^verbatim>\<open>defaults=\<close> (views.py:231-251) and of
  \<^verbatim>\<open>Song.objects.create\<close> (views.py:273-294); the key is set by the insert. The keys
  \<^verbatim>\<open>speechiness\<close>, \<^verbatim>\<open>liveness\<close>, \<^verbatim>\<open>key\<close> and \<^verbatim>\<open>time_signature\<close> are never in
  \<^verbatim>\<open>audio_data\<close>, so \<^verbatim>\<open>.get\<close> gives \<^verbatim>\<open>None\<close>.
\<close>

definition new_song :: "string option \<Rightarrow> audio_data \<Rightarrow> feature_set \<Rightarrow> song" where
  "new_song tid ad mi =
     \<lparr>song_id = 0,
      track_id = tid,
      track_name = ad_title ad,
      artists = ad_artist ad,
      album_name = Some (ad_album ad),
      popularity = Some (ad_popularity ad),
      track_genre = Some (case ad_track_genre ad of None \<Rightarrow> [] | Some g \<Rightarrow> g),
      duration_ms = fs_duration_ms mi,
      danceability = fs_danceability mi,
      energy = fs_energy mi,
      valence = fs_valence mi,
      acousticness = fs_acousticness mi,
      instrumentalness = fs_instrumentalness mi,
      speechiness = None,
      liveness = None,
      loudness = fs_loudness mi,
      tempo = fs_tempo mi,
      mode = fs_mode mi,
      key = None,
      time_signature = None,
      explicit = (fs_explicit mi = Fin 1),
      is_acoustic = False,
      is_instrumental = False,
      is_hit = None\<rparr>"

text \<open>The assignments of views.py:256-269 to a row that already exists.\<close>

definition overwrite_song :: "song \<Rightarrow> audio_data \<Rightarrow> feature_set \<Rightarrow> song" where
  "overwrite_song s ad mi =
     s\<lparr>track_name := ad_title ad,
       artists := ad_artist ad,
       album_name := Some (ad_album ad),
       popularity := Some (ad_popularity ad),
       duration_ms := fs_duration_ms mi,
       danceability := fs_danceability mi,
       energy := fs_energy mi,
       valence := fs_valence mi,
       acousticness := fs_acousticness mi,
       instrumentalness := fs_instrumentalness mi,
       loudness := fs_loudness mi,
       tempo := fs_tempo mi,
       mode := fs_mode mi,
       explicit := (fs_explicit mi = Fin 1)\<rparr>"

text \<open>
  views.py:228-294. \<^verbatim>\<open>get_or_create(track_id=..)\<close> returns the one row with the
  identifier, creates the row when there is none, and raises
  \<^verbatim>\<open>MultipleObjectsReturned\<close> when there are several.
\<close>

definition store_song ::
  "(db_write \<Rightarrow> bool) \<Rightarrow> db \<Rightarrow> string option \<Rightarrow> audio_data \<Rightarrow> feature_set \<Rightarrow> error + song \<times> db" where
  "store_song wfail d tid ad mi =
     (if truthy tid then
        (case filter (\<lambda>s. track_id s = tid) (songs d) of
           [] \<Rightarrow> song_create wfail d (new_song tid ad mi)
         | [s] \<Rightarrow> song_update wfail d (overwrite_song s ad mi)
         | _ \<Rightarrow> Inl (PyException ''MultipleObjectsReturned''))
      else song_create wfail d (new_song None ad mi))"

definition hit_label :: "bool \<Rightarrow> string" where
  "hit_label b = (if b then ''HIT'' else ''FLOP'')"

text \<open>The row of views.py:297-306; the key is set by the insert.\<close>

definition new_prediction :: "song \<Rightarrow> audio_data \<Rightarrow> bool \<Rightarrow> real \<Rightarrow> prediction" where
  "new_prediction sg ad model_hit model_conf =
     (let rc = reconcile ad model_hit model_conf
      in \<lparr>prediction_id = 0,
          pred_song = song_id sg,
          pred_is_hit = final_is_hit rc,
          pred_confidence = final_confidence rc,
          pred_model_prediction = hit_label model_hit,
          pred_model_confidence = model_conf,
          pred_adjusted_by_dataset = adjusted_by_dataset rc,
          pred_dataset_label =
            (if ad_is_hit_in_dataset ad = Some True then Some ''HIT''
             else if in_dataset ad then Some ''FLOP'' else None),
          pred_dataset_popularity =
            (if in_dataset ad then Some (ad_popularity ad) else None)\<rparr>)"

text \<open>The response of views.py:309-333.\<close>

definition spotify_response_of ::
  "string option \<Rightarrow> audio_data \<Rightarrow> bool \<Rightarrow> real \<Rightarrow> song \<Rightarrow> prediction \<Rightarrow> spotify_response" where
  "spotify_response_of tid ad model_hit model_conf sg p =
     \<lparr>rs_prediction = hit_label (pred_is_hit p = Some True),
      rs_confidence = py_round2 (pred_confidence p),
      rs_title = ad_title ad,
      rs_artist = ad_artist ad,
      rs_album = ad_album ad,
      rs_album_image = ad_album_image ad,
      rs_spotify_url = ad_spotify_url ad,
      rs_preview_url = ad_preview_url ad,
      rs_popularity = ad_popularity ad,
      rs_track_id = tid,
      rs_features = model_input_of ad,
      rs_prediction_id = prediction_id p,
      rs_song_id = song_id sg,
      rs_in_dataset = in_dataset ad,
      rs_model_prediction = hit_label model_hit,
      rs_model_confidence = py_round2 model_conf,
      rs_dataset_label =
        (if in_dataset ad then Some (hit_label (ad_is_hit_in_dataset ad = Some True)) else None),
      rs_dataset_popularity = (if in_dataset ad then Some (ad_popularity ad) else None)\<rparr>"

text \<open>
  \<^verbatim>\<open>predict_from_spotify\<close>. The request body is \<open>None\<close> when it is not valid JSON. Every
  exception is caught by the view and answered with an error response, so the result
  is the response together with the database as the request leaves it.
\<close>

definition predict_from_spotify ::
  "remote \<Rightarrow> classifier option \<Rightarrow> (db_write \<Rightarrow> bool) \<Rightarrow> spotify_request option \<Rightarrow> db
   \<Rightarrow> (error + spotify_response) \<times> db" where
  "predict_from_spotify r model_file wfail body d =
     (case body of
        None \<Rightarrow> (Inl InvalidJSON, d)
      | Some data \<Rightarrow>
     (case resolve r d data of
        Inl e \<Rightarrow> (Inl e, d)
      | Inr (tid, ad) \<Rightarrow>
     (case predict_song model_file (prepare_features (model_input_of ad)) of
        Inl e \<Rightarrow> (Inl e, d)
      | Inr (model_hit, model_conf) \<Rightarrow>
     (case store_song wfail d tid ad (model_input_of ad) of
        Inl e \<Rightarrow> (Inl e, d)
      | Inr (sg, d1) \<Rightarrow>
     (case prediction_create wfail d1 (new_prediction sg ad model_hit model_conf) of
        Inl e \<Rightarrow> (Inl e, d1)
      | Inr (p, d2) \<Rightarrow>
     (let response_data = spotify_response_of tid ad model_hit model_conf sg p
      in case audit_create wfail d2 (prediction_id p) (SpotifyRequest data)
                (SpotifyResponse response_data) of
           Inl e \<Rightarrow> (Inl e, d2)
         | Inr d3 \<Rightarrow> (Inr response_data, d3)))))))"

subsection \<open>Manual prediction (views.py:411-524)\<close>

text \<open>
  \<^verbatim>\<open>title = data.get('title', 'Untitled Song')\<close> and \<^verbatim>\<open>artist = data.get('artist', '')\<close>
  are JSON values; the character column stores a string as it is, \<^verbatim>\<open>null\<close> as NULL
  and anything else as \<^verbatim>\<open>str(value)\<close>.
\<close>

definition to_char_column :: "pyrt \<Rightarrow> json \<Rightarrow> string option" where
  "to_char_column rt j = (case j of JNull \<Rightarrow> None | JStr s \<Rightarrow> Some s | _ \<Rightarrow> Some (str_of rt j))"

definition json_get :: "(string \<times> json) list \<Rightarrow> string \<Rightarrow> json \<Rightarrow> json" where
  "json_get data k dflt = (case map_of data k of None \<Rightarrow> dflt | Some j \<Rightarrow> j)"

definition manual_song :: "pyrt \<Rightarrow> (string \<times> json) list \<Rightarrow> feature_set \<Rightarrow> song" where
  "manual_song rt data validated =
     \<lparr>song_id = 0,
      track_id = None,
      track_name = to_char_column rt (json_get data ''title'' (JStr ''Untitled Song'')),
      artists = to_char_column rt (json_get data ''artist'' (JStr [])),
      album_name = None,
      popularity = None,
      track_genre = None,
      duration_ms = fs_duration_ms validated,
      danceability = fs_danceability validated,
      energy = fs_energy validated,
      valence = fs_valence validated,
      acousticness = fs_acousticness validated,
      instrumentalness = fs_instrumentalness validated,
      speechiness = None,
      liveness = None,
      loudness = fs_loudness validated,
      tempo = fs_tempo validated,
      mode = fs_mode validated,
      key = None,
      time_signature = None,
      explicit = (fs_explicit validated = Fin 1),
      is_acoustic = False,
      is_instrumental = False,
      is_hit = None\<rparr>"

definition manual_prediction :: "song \<Rightarrow> bool \<Rightarrow> real \<Rightarrow> prediction" where
  "manual_prediction sg hit confidence =
     \<lparr>prediction_id = 0,
      pred_song = song_id sg,
      pred_is_hit = Some hit,
      pred_confidence = confidence,
      pred_model_prediction = hit_label hit,
      pred_model_confidence = confidence,
      pred_adjusted_by_dataset = False,
      pred_dataset_label = None,
      pred_dataset_popularity = None\<rparr>"

definition predict_manual ::
  "pyrt \<Rightarrow> classifier option \<Rightarrow> (db_write \<Rightarrow> bool) \<Rightarrow> (string \<times> json) list option \<Rightarrow> db
   \<Rightarrow> (error + manual_response) \<times> db" where
  "predict_manual rt model_file wfail body d =
     (case body of
        None \<Rightarrow> (Inl InvalidJSON, d)
      | Some data \<Rightarrow>
     (case validate rt data of
        Inl e \<Rightarrow> (Inl e, d)
      | Inr validated \<Rightarrow>
     (case predict_song model_file (prepare_features validated) of
        Inl e \<Rightarrow> (Inl e, d)
      | Inr (hit, confidence) \<Rightarrow>
     (case song_create wfail d (manual_song rt data validated) of
        Inl e \<Rightarrow> (Inl e, d)
      | Inr (sg, d1) \<Rightarrow>
     (case prediction_create wfail d1 (manual_prediction sg hit confidence) of
        Inl e \<Rightarrow> (Inl e, d1)
      | Inr (p, d2) \<Rightarrow>
     (let response_data =
            \<lparr>rm_prediction = hit_label hit, rm_confidence = confidence,
             rm_song_title = json_get data ''title'' (JStr ''Untitled Song''),
             rm_song_id = song_id sg, rm_prediction_id = prediction_id p,
             rm_features = validated\<rparr>
      in case audit_create wfail d2 (prediction_id p) (ManualRequest data)
                (ManualResponse response_data) of
           Inl e \<Rightarrow> (Inl e, d2)
         | Inr d3 \<Rightarrow> (Inr response_data, d3)))))))"

text \<open>Requests and a catalog without search results, for the examples.\<close>

definition title_request :: spotify_request where
  "title_request =
     \<lparr>rq_track_id = None, rq_url = None, rq_track_url = None, rq_spotify_url = None,
      rq_title = Some ''Comedy'', rq_artist = Some ''Gen Hoshino''\<rparr>"

definition id_request :: spotify_request where
  "id_request =
     \<lparr>rq_track_id = Some ''5SuOikwiRyPMVoIQDJUgSV'', rq_url = None, rq_track_url = None,
      rq_spotify_url = None, rq_title = None, rq_artist = None\<rparr>"

definition silent_remote :: remote where
  "silent_remote =
     \<lparr>get_track = (\<lambda>tid. Inr example_track),
      get_features = (\<lambda>tid. Inl RemoteError),
      search = (\<lambda>q n. Inr [])\<rparr>"

definition no_faults :: "db_write \<Rightarrow> bool" where
  "no_faults w = False"

subsection \<open>CSV import (import_dataset.py)\<close>

text \<open>
  A cell of the data frame that \<^verbatim>\<open>pd.read_csv\<close> returns: \<open>CNaN\<close> is a cell without a
  value. The text columns hold a string or no value (\<open>None\<close>). A row has a field for
  every column the command reads and for an \<^verbatim>\<open>is_hit\<close> column, which the command never
  reads; an optional column that the file does not have is a column of empty cells
  (\<^verbatim>\<open>row.get\<close> gives \<^verbatim>\<open>None\<close>, and \<^verbatim>\<open>pd.notna(None)\<close> is false). \<open>columns\<close> are the
  names of the columns of the file.
\<close>

datatype cell = CNaN | CBool bool | CInt int | CFloat real | CStr string

record csv_row =
  c_track_id :: "string option"
  c_track_name :: "string option"
  c_artists :: "string option"
  c_album_name :: "string option"
  c_track_genre :: "string option"
  c_popularity :: cell
  c_duration_ms :: cell
  c_danceability :: cell
  c_energy :: cell
  c_valence :: cell
  c_acousticness :: cell
  c_instrumentalness :: cell
  c_loudness :: cell
  c_tempo :: cell
  c_mode :: cell
  c_explicit :: cell
  c_key :: cell
  c_speechiness :: cell
  c_liveness :: cell
  c_time_signature :: cell
  c_is_hit :: cell

record data_frame =
  columns :: "string list"
  rows :: "csv_row list"

text \<open>
  \<^verbatim>\<open>int(x)\<close>, \<^verbatim>\<open>float(x)\<close> and \<^verbatim>\<open>bool(x)\<close> on a cell. \<^verbatim>\<open>int(nan)\<close> raises
  \<^verbatim>\<open>ValueError\<close>, \<^verbatim>\<open>float(nan)\<close> is NaN and \<^verbatim>\<open>bool(nan)\<close> is true.
\<close>

fun cell_int :: "pyrt \<Rightarrow> cell \<Rightarrow> int option" where
  "cell_int rt CNaN = None"
| "cell_int rt (CBool b) = Some (if b then 1 else 0)"
| "cell_int rt (CInt n) = Some n"
| "cell_int rt (CFloat x) = Some (trunc x)"
| "cell_int rt (CStr s) = int_of_str rt s"

fun cell_float :: "pyrt \<Rightarrow> cell \<Rightarrow> pyfloat option" where
  "cell_float rt CNaN = Some NaN"
| "cell_float rt (CBool b) = Some (Fin (if b then 1 else 0))"
| "cell_float rt (CInt n) = Some (Fin (real_of_int n))"
| "cell_float rt (CFloat x) = Some (Fin x)"
| "cell_float rt (CStr s) = float_of_str rt s"

fun cell_bool :: "cell \<Rightarrow> bool" where
  "cell_bool CNaN = True"
| "cell_bool (CBool b) = b"
| "cell_bool (CInt n) = (n \<noteq> 0)"
| "cell_bool (CFloat x) = (x \<noteq> 0)"
| "cell_bool (CStr s) = (s \<noteq> [])"

text \<open>\<^verbatim>\<open>conv(row.get(c)) if pd.notna(row.get(c)) else None\<close>; the outer \<open>None\<close> is a raise.\<close>

definition if_notna :: "(cell \<Rightarrow> 'a option) \<Rightarrow> cell \<Rightarrow> 'a option option" where
  "if_notna conv c = (if c = CNaN then Some None else map_option Some (conv c))"

definition import_required_columns :: "string list" where
  "import_required_columns =
     [''track_id'', ''track_name'', ''artists'', ''album_name'', ''popularity'',
      ''duration_ms'', ''danceability'', ''energy'', ''valence'', ''acousticness'',
      ''instrumentalness'', ''loudness'', ''tempo'', ''mode'', ''explicit'']"

text \<open>
  The record of import_dataset.py:86-112; \<open>None\<close> when a conversion raises, which the
  \<^verbatim>\<open>except Exception\<close> of the loop answers with a warning and \<^verbatim>\<open>continue\<close>. The
  required columns exist in every row that reaches this point, so the default of
  \<^verbatim>\<open>row.get(c, 0)\<close> is never taken: an empty cell is NaN.
  \<^verbatim>\<open>
  popularity = int(row.get('popularity', 0)) if pd.notna(row.get('popularity')) else None
  is_hit = popularity >= 50 if popularity is not None else None
  \<close>
  \<^verbatim>\<open>bulk_create\<close> does not call \<^verbatim>\<open>save()\<close>: the flags \<^verbatim>\<open>is_acoustic\<close> and
  \<^verbatim>\<open>is_instrumental\<close> keep their default.
\<close>

definition import_record :: "pyrt \<Rightarrow> csv_row \<Rightarrow> song option" where
  "import_record rt row =
     do {
       v_popularity \<leftarrow> if_notna (cell_int rt) (c_popularity row);
       v_duration_ms \<leftarrow> cell_int rt (c_duration_ms row);
       v_danceability \<leftarrow> cell_float rt (c_danceability row);
       v_energy \<leftarrow> cell_float rt (c_energy row);
       v_valence \<leftarrow> cell_float rt (c_valence row);
       v_acousticness \<leftarrow> cell_float rt (c_acousticness row);
       v_instrumentalness \<leftarrow> cell_float rt (c_instrumentalness row);
       v_loudness \<leftarrow> cell_float rt (c_loudness row);
       v_tempo \<leftarrow> cell_float rt (c_tempo row);
       v_mode \<leftarrow> cell_int rt (c_mode row);
       v_key \<leftarrow> if_notna (cell_int rt) (c_key row);
       v_speechiness \<leftarrow> if_notna (cell_float rt) (c_speechiness row);
       v_liveness \<leftarrow> if_notna (cell_float rt) (c_liveness row);
       v_time_signature \<leftarrow> if_notna (cell_int rt) (c_time_signature row);
       Some \<lparr>song_id = 0,
             track_id = c_track_id row,
             track_name = c_track_name row,
             artists = c_artists row,
             album_name = c_album_name row,
             popularity = v_popularity,
             track_genre = c_track_genre row,
             duration_ms = v_duration_ms,
             danceability = v_danceability,
             energy = v_energy,
             valence = v_valence,
             acousticness = v_acousticness,
             instrumentalness = v_instrumentalness,
             speechiness = v_speechiness,
             liveness = v_liveness,
             loudness = v_loudness,
             tempo = v_tempo,
             mode = v_mode,
             key = v_key,
             time_signature = v_time_signature,
             explicit = cell_bool (c_explicit row),
             is_acoustic = False,
             is_instrumental = False,
             is_hit = (case v_popularity of None \<Rightarrow> None | Some p \<Rightarrow> Some (p \<ge> 50))\<rparr>
     }"

text \<open>
  \<^verbatim>\<open>Song.objects.bulk_create(records, ignore_conflicts=True)\<close>: every record gets a
  key and is stored as it is. The table has no unique column but the key, so no
  insert is ignored. A failing bulk insert is not modelled.
\<close>

definition bulk_create :: "db \<Rightarrow> song list \<Rightarrow> db" where
  "bulk_create d records =
     foldl (\<lambda>d' s. d'\<lparr>songs := s\<lparr>song_id := next_song_id d'\<rparr> # songs d',
                      next_song_id := Suc (next_song_id d')\<rparr>) d records"

record import_state =
  pending :: "song list"
  imported_count :: nat
  skipped_count :: nat
  error_count :: nat
  import_db :: db

text \<open>
  \<^verbatim>\<open>Song.objects.filter(track_id=row.get('track_id', '')).exists()\<close>: an empty cell is
  compared as the string \<^verbatim>\<open>'nan'\<close>.
\<close>

definition track_id_exists :: "db \<Rightarrow> csv_row \<Rightarrow> bool" where
  "track_id_exists d row =
     list_ex (\<lambda>s. track_id s = Some (case c_track_id row of None \<Rightarrow> ''nan'' | Some t \<Rightarrow> t))
       (songs d)"

text \<open>One turn of the loop of import_dataset.py:77-126.\<close>

definition import_row :: "pyrt \<Rightarrow> nat \<Rightarrow> csv_row \<Rightarrow> import_state \<Rightarrow> import_state" where
  "import_row rt batch_size row st =
     (if track_id_exists (import_db st) row
      then st\<lparr>skipped_count := skipped_count st + 1\<rparr>
      else (case import_record rt row of
              None \<Rightarrow> st
            | Some sr \<Rightarrow>
                (let records = pending st @ [sr]
                 in if length records \<ge> batch_size
                    then st\<lparr>import_db := bulk_create (import_db st) records,
                            imported_count := imported_count st + length records,
                            pending := []\<rparr>
                    else st\<lparr>pending := records\<rparr>)))"

fun import_rows :: "pyrt \<Rightarrow> nat \<Rightarrow> csv_row list \<Rightarrow> import_state \<Rightarrow> import_state" where
  "import_rows rt batch_size [] st = st"
| "import_rows rt batch_size (row # rest) st =
     import_rows rt batch_size rest (import_row rt batch_size row st)"

text \<open>
  The file named on the command line: it does not exist, \<^verbatim>\<open>pd.read_csv\<close> raises, or
  it is read as a data frame.
\<close>

datatype csv_file = NoFile | Unreadable | Frame data_frame

text \<open>
  \<^verbatim>\<open>Command.handle\<close> of import_dataset.py. A missing required column ends the command
  before any row is read.
\<close>

definition import_dataset :: "pyrt \<Rightarrow> nat \<Rightarrow> csv_file \<Rightarrow> db \<Rightarrow> db" where
  "import_dataset rt batch_size file d =
     (case file of
        NoFile \<Rightarrow> d
      | Unreadable \<Rightarrow> d
      | Frame df \<Rightarrow>
          (if filter (\<lambda>c. c \<notin> set (columns df)) import_required_columns \<noteq> [] then d
           else (let st = import_rows rt batch_size (rows df)
                            \<lparr>pending = [], imported_count = 0, skipped_count = 0,
                             error_count = 0, import_db = d\<rparr>
                 in if pending st \<noteq> [] then bulk_create (import_db st) (pending st)
                    else import_db st)))"

text \<open>\<^verbatim>\<open>clear_database\<close>: the three tables are emptied.\<close>

definition clear_database :: "db \<Rightarrow> db" where
  "clear_database d = d\<lparr>audit_logs := [], predictions := [], songs := []\<rparr>"

subsection \<open>Complete import (import_complete_dataset.py)\<close>

text \<open>
  One turn of the loop of import_complete_dataset.py:102-149: the same record as in
  import_dataset.py, no check for an existing identifier, and a count of the rows
  whose conversion raised.
\<close>

definition import_complete_row ::
  "pyrt \<Rightarrow> nat \<Rightarrow> csv_row \<Rightarrow> import_state \<Rightarrow> import_state" where
  "import_complete_row rt batch_size row st =
     (case import_record rt row of
        None \<Rightarrow> st\<lparr>error_count := error_count st + 1\<rparr>
      | Some sr \<Rightarrow>
          (let records = pending st @ [sr]
           in if length records \<ge> batch_size
              then st\<lparr>import_db := bulk_create (import_db st) records,
                      imported_count := imported_count st + length records,
                      pending := []\<rparr>
              else st\<lparr>pending := records\<rparr>))"

fun import_complete_rows ::
  "pyrt \<Rightarrow> nat \<Rightarrow> csv_row list \<Rightarrow> import_state \<Rightarrow> import_state" where
  "import_complete_rows rt batch_size [] st = st"
| "import_complete_rows rt batch_size (row # rest) st =
     import_complete_rows rt batch_size rest (import_complete_row rt batch_size row st)"

text \<open>
  \<^verbatim>\<open>Command.handle\<close> of import_complete_dataset.py. A file that does not exist ends
  the command at once; otherwise the tables are cleared first (unless \<^verbatim>\<open>--no-clear\<close>),
  also when the file then cannot be read or lacks a required column.
\<close>

definition import_complete_dataset ::
  "pyrt \<Rightarrow> nat \<Rightarrow> bool \<Rightarrow> csv_file \<Rightarrow> db \<Rightarrow> db" where
  "import_complete_dataset rt batch_size clear_first file d =
     (let d0 = (if clear_first then clear_database d else d)
      in case file of
           NoFile \<Rightarrow> d
         | Unreadable \<Rightarrow> d0
         | Frame df \<Rightarrow>
             (if filter (\<lambda>c. c \<notin> set (columns df)) import_required_columns \<noteq> [] then d0
              else (let st = import_complete_rows rt batch_size (rows df)
                               \<lparr>pending = [], imported_count = 0, skipped_count = 0,
                                error_count = 0, import_db = d0\<rparr>
                    in if pending st \<noteq> [] then bulk_create (import_db st) (pending st)
                       else import_db st)))"

subsection \<open>Reachable databases\<close>

text \<open>
  The databases the application can produce: the empty one, and what a prediction
  request, either import command or a clearing leaves behind, whatever the catalog,
  the classifier, the runtime and the failing writes are.
\<close>

inductive reachable :: "db \<Rightarrow> bool" where
  reachable_empty: "reachable empty_db"
| reachable_spotify:
    "reachable d \<Longrightarrow> reachable (snd (predict_from_spotify r model_file wfail body d))"
| reachable_manual:
    "reachable d \<Longrightarrow> reachable (snd (predict_manual rt model_file wfail body' d))"
| reachable_import:
    "reachable d \<Longrightarrow> reachable (import_dataset rt batch_size file d)"
| reachable_import_complete:
    "reachable d \<Longrightarrow> reachable (import_complete_dataset rt batch_size clear_first file d)"
| reachable_clear:
    "reachable d \<Longrightarrow> reachable (clear_database d)"

text \<open>The label invariant of a row: \<^verbatim>\<open>is_hit = (popularity >= 50)\<close> when popularity is set.\<close>

definition hit_consistent :: "song \<Rightarrow> bool" where
  "hit_consistent s =
     (case popularity s of None \<Rightarrow> True | Some p \<Rightarrow> is_hit s = Some (p \<ge> 50))"

text \<open>Rows and files for the examples.\<close>

definition example_row :: csv_row where
  "example_row =
     \<lparr>c_track_id = Some ''5SuOikwiRyPMVoIQDJUgSV'', c_track_name = Some ''Comedy'',
      c_artists = Some ''Gen Hoshino'', c_album_name = Some ''Comedy'',
      c_track_genre = Some ''acoustic'', c_popularity = CInt 73,
      c_duration_ms = CInt 230666, c_danceability = CFloat 0.676, c_energy = CFloat 0.461,
      c_valence = CFloat 0.715, c_acousticness = CFloat 0.0322,
      c_instrumentalness = CFloat 0.00000101, c_loudness = CFloat (-6.746),
      c_tempo = CFloat 87.917, c_mode = CInt 0, c_explicit = CBool False, c_key = CInt 1,
      c_speechiness = CFloat 0.143, c_liveness = CFloat 0.358, c_time_signature = CInt 4,
      c_is_hit = CBool False\<rparr>"

definition example_file :: data_frame where
  "example_file = \<lparr>columns = import_required_columns, rows = [example_row]\<rparr>"

definition no_duration_column_file :: data_frame where
  "no_duration_column_file =
     \<lparr>columns = filter (\<lambda>c. c \<noteq> ''duration_ms'') import_required_columns,
      rows = [example_row]\<rparr>"

definition no_duration_file :: data_frame where
  "no_duration_file =
     \<lparr>columns = import_required_columns, rows = [example_row\<lparr>c_duration_ms := CNaN\<rparr>]\<rparr>"

text \<open>The loop invariant of the import for the label invariant.\<close>

definition import_ok :: "import_state \<Rightarrow> bool" where
  "import_ok st \<longleftrightarrow>
     (\<forall>s \<in> set (songs (import_db st)). hit_consistent s)
     \<and> (\<forall>s \<in> set (pending st). hit_consistent s)"

subsection \<open>Outcome of a request for Prediction and audit rows\<close>

text \<open>The failure of a response, if it is one.\<close>

definition failure_of :: "error + 'a \<Rightarrow> error option" where
  "failure_of resp = (case resp of Inl e \<Rightarrow> Some e | Inr b \<Rightarrow> None)"

text \<open>
  What a request may do to the tables \<^verbatim>\<open>Prediction\<close> and \<^verbatim>\<open>PredictionAuditLog\<close>, from
  the database \<open>d\<close> before to the database \<open>d'\<close> after. A request that succeeds adds
  one prediction and one audit row that refers to it. A request that fails adds no
  audit row; it adds no prediction either, unless the failure is the audit write
  itself, which leaves the prediction that was written just before.
\<close>

definition paired_outcome :: "(db_write \<Rightarrow> bool) \<Rightarrow> error option \<Rightarrow> db \<Rightarrow> db \<Rightarrow> bool" where
  "paired_outcome wfail failure d d' =
     (case failure of
        None \<Rightarrow>
          (\<exists>a p. audit_logs d' = a # audit_logs d \<and> predictions d' = p # predictions d
                 \<and> audit_prediction a = prediction_id p)
      | Some e \<Rightarrow>
          audit_logs d' = audit_logs d
          \<and> (predictions d' = predictions d
             \<or> (wfail AuditInsert \<and> e = DatabaseError
                \<and> (\<exists>p. predictions d' = p # predictions d))))"

text \<open>Only the write of the audit row fails.\<close>

definition audit_write_fails :: "db_write \<Rightarrow> bool" where
  "audit_write_fails w = (w = AuditInsert)"

text \<open>
  A database whose only row carries the identifier \<open>''open''\<close> under an older title,
  with popularity 40 and the label FLOP, and a request for that identifier.
\<close>

definition renamed_db :: db where
  "renamed_db =
     \<lparr>songs = [example_song\<lparr>track_id := Some ''open'', track_name := Some ''Kigeki'',
                              popularity := Some 40, is_hit := Some False\<rparr>],
      predictions = [], audit_logs = [],
      next_song_id = 2, next_prediction_id = 1, next_audit_id = 1\<rparr>"

definition open_request :: spotify_request where
  "open_request =
     \<lparr>rq_track_id = Some ''open'', rq_url = None, rq_track_url = None,
      rq_spotify_url = None, rq_title = None, rq_artist = None\<rparr>"

section \<open>Theorems\<close>

subsection \<open>Reconciliation\<close>

text \<open>
  C1. When the reference-dataset label is present (\<open>source = dataset\<close>) and disagrees
  with the model's label, the reconciled label is the dataset's, the confidence is
  \<open>max 60 (model_confidence + 10)\<close> and the result is flagged as adjusted. In
  particular a model verdict FLOP at 50.0 against a dataset HIT gives HIT at 60.0,
  adjusted.
\<close>

theorem reconcile_disagree:
  "ad_source ad = Some ''dataset'' \<Longrightarrow> ad_is_hit_in_dataset ad = Some ref \<Longrightarrow>
   ref \<noteq> model_hit \<Longrightarrow>
   reconcile ad model_hit c =
     \<lparr>final_is_hit = Some ref, final_confidence = max 60 (c + 10),
      adjusted_by_dataset = True\<rparr>
   \<and> (model_hit = False \<and> c = 50 \<and> ref = True \<longrightarrow>
        reconcile ad model_hit c =
          \<lparr>final_is_hit = Some True, final_confidence = 60, adjusted_by_dataset = True\<rparr>)"
  by (auto simp: reconcile_def in_dataset_def)

theorem reconcile_disagree_witness:
  "ad_source example_audio = Some ''dataset''
   \<and> ad_is_hit_in_dataset example_audio = Some True \<and> True \<noteq> False
   \<and> reconcile example_audio False 50 =
       \<lparr>final_is_hit = Some True, final_confidence = 60, adjusted_by_dataset = True\<rparr>"
proof -
  have s: "ad_source example_audio = Some ''dataset''"
    by (simp add: example_audio_def)
  have h: "ad_is_hit_in_dataset example_audio = Some True"
    by (simp add: example_audio_def)
  have d: "True \<noteq> False" by simp
  from reconcile_disagree [OF s h d, of 50] s h show ?thesis by simp
qed

text \<open>
  C2. When the reference-dataset label is present and agrees with the model's label,
  the model's label is kept, the confidence is \<open>min 95 (model_confidence + 5)\<close> and the
  result is not flagged; at 92.0 the confidence is 95.0, not 97.0. When no reference
  label is present (\<open>source\<close> is not \<open>dataset\<close>) label and confidence are the model's,
  unchanged, and the result is not flagged.
\<close>

theorem reconcile_agree_or_absent:
  "(ad_source ad = Some ''dataset'' \<and> ad_is_hit_in_dataset ad = Some model_hit \<longrightarrow>
      reconcile ad model_hit c =
        \<lparr>final_is_hit = Some model_hit, final_confidence = min 95 (c + 5),
         adjusted_by_dataset = False\<rparr>
      \<and> (c = 92 \<longrightarrow> final_confidence (reconcile ad model_hit c) = 95
                    \<and> final_confidence (reconcile ad model_hit c) \<noteq> 97))
   \<and> (ad_source ad \<noteq> Some ''dataset'' \<longrightarrow>
      reconcile ad model_hit c =
        \<lparr>final_is_hit = Some model_hit, final_confidence = c,
         adjusted_by_dataset = False\<rparr>)"
  by (auto simp: reconcile_def in_dataset_def)

theorem reconcile_agree_or_absent_witness:
  "ad_source example_audio = Some ''dataset''
   \<and> ad_is_hit_in_dataset example_audio = Some True
   \<and> reconcile example_audio True 92 =
       \<lparr>final_is_hit = Some True, final_confidence = 95, adjusted_by_dataset = False\<rparr>
   \<and> ad_source (example_audio\<lparr>ad_source := Some ''spotify_api''\<rparr>) \<noteq> Some ''dataset''
   \<and> reconcile (example_audio\<lparr>ad_source := Some ''spotify_api''\<rparr>) True 92 =
       \<lparr>final_is_hit = Some True, final_confidence = 92, adjusted_by_dataset = False\<rparr>"
proof -
  have s: "ad_source example_audio = Some ''dataset''"
    by (simp add: example_audio_def)
  have h: "ad_is_hit_in_dataset example_audio = Some True"
    by (simp add: example_audio_def)
  have n: "ad_source (example_audio\<lparr>ad_source := Some ''spotify_api''\<rparr>) \<noteq> Some ''dataset''"
    by simp
  from reconcile_agree_or_absent [of example_audio True 92]
       reconcile_agree_or_absent [of "example_audio\<lparr>ad_source := Some ''spotify_api''\<rparr>" True 92]
       s h n
  show ?thesis by simp
qed

subsection \<open>Resolution by identifier\<close>

lemma starts_with_iff: "starts_with s p \<longleftrightarrow> (\<exists>q. s = p @ q)"
  by (induction s p rule: starts_with.induct) auto

lemma contains_iff: "contains h n \<longleftrightarrow> (\<exists>p q. h = p @ n @ q)"
proof (induction h)
  case Nil
  then show ?case by auto
next
  case (Cons c cs)
  show ?case
  proof
    assume "contains (c # cs) n"
    then consider "starts_with (c # cs) n" | "contains cs n" by auto
    then show "\<exists>p q. c # cs = p @ n @ q"
    proof cases
      case 1
      then obtain q where "c # cs = n @ q" by (auto simp: starts_with_iff)
      then have "c # cs = [] @ n @ q" by simp
      then show ?thesis by blast
    next
      case 2
      with Cons obtain p q where "cs = p @ n @ q" by auto
      then have "c # cs = (c # p) @ n @ q" by simp
      then show ?thesis by blast
    qed
  next
    assume "\<exists>p q. c # cs = p @ n @ q"
    then obtain p q where pq: "c # cs = p @ n @ q" by blast
    show "contains (c # cs) n"
    proof (cases p)
      case Nil
      with pq have "starts_with (c # cs) n" by (auto simp: starts_with_iff)
      then show ?thesis by simp
    next
      case (Cons a p')
      with pq have "cs = p' @ n @ q" by simp
      with Cons.IH have "contains cs n" by blast
      then show ?thesis by simp
    qed
  qed
qed

lemma iexact_iff: "iexact col v \<longleftrightarrow> (\<exists>t. col = Some t \<and> lower t = lower v)"
  by (auto simp: iexact_def split: option.splits)

lemma icontains_iff:
  "icontains col v \<longleftrightarrow> (\<exists>t. col = Some t \<and> (\<exists>p q. lower t = p @ lower v @ q))"
  by (auto simp: icontains_def contains_iff split: option.splits)

lemma exact_imp_partial: "matches_exact t a s \<Longrightarrow> matches_partial t a s"
  unfolding matches_exact_def matches_partial_def iexact_iff icontains_iff
  by (metis append_Nil append_Nil2)


lemma find_song_None:
  "find_song d t a = None \<longleftrightarrow> (\<forall>s \<in> set (songs d). \<not> matches_partial t a s)"
  by (auto simp: find_song_def find_None_iff split: option.splits
           dest: exact_imp_partial simp: find_Some_iff)





subsection \<open>Classifier adapter\<close>






subsection \<open>Feature vector builder\<close>















subsection \<open>Resolution by title and artist\<close>

lemma first_in_dataset_none:
  "\<forall>x \<in> set xs. \<not> sr_in_dataset x \<Longrightarrow> first_in_dataset r d xs = None"
  by (induction xs) auto

lemma hints_length: "length (hints xs) \<le> 3"
  by (simp add: hints_def)

lemma hints_subset:
  "set (hints xs) \<subseteq> (\<lambda>x. (sr_id x, sr_title x, sr_artist x)) ` set xs"
  unfolding hints_def using set_take_subset [of 3 xs] by auto

lemma search_result_hint:
  "(sr_id (search_result_of d t), sr_title (search_result_of d t), sr_artist (search_result_of d t))
     = (sp_id t, sp_name t, join '', '' (sp_artists t))"
  by (simp add: search_result_of_def Let_def)

lemma sort_key_Nil_iff: "sort_key f xs = [] \<longleftrightarrow> xs = []"
  using length_sort [of f xs] by (metis length_0_conv)

lemma search_tracks_set:
  "search r q n = Inr items \<Longrightarrow>
   \<exists>results. search_tracks r d q n = Inr results
      \<and> set results = search_result_of d ` set items
      \<and> (results = [] \<longleftrightarrow> items = [])"
  by (simp add: search_tracks_def sort_key_Nil_iff)

text \<open>
  C7, as the code has it. A request by title and artist that names no identifier,
  finds no reference-dataset match and whose catalog search returns at least one
  candidate, none of them in the dataset, fails with \<open>NotInTrainingDataError\<close>; the
  error carries between one and three (id, title, artist) tuples, all drawn from the
  catalog search results, and the database is left as it was. When the catalog search
  returns no candidate at all the request fails instead with the not-found error of
  views.py:127 (status 404), which carries no hint.
\<close>

theorem not_in_training_data:
  assumes inp: "track_input data = None"
    and tt: "truthy (rq_title data)" and ta: "truthy (rq_artist data)"
    and title: "title = strip (str_or (rq_title data) [])"
    and artist: "artist = strip (str_or (rq_artist data) [])"
    and nomatch: "find_song d title artist = None"
    and srch: "search r (title @ '' '' @ artist) 5 = Inr items"
    and none_in: "\<forall>t \<in> set items. \<not> sr_in_dataset (search_result_of d t)"
  shows "(items \<noteq> [] \<longrightarrow>
           (\<exists>hs. predict_from_spotify r model_file wfail (Some data) d
                    = (Inl (NotInTrainingDataError hs), d)
                 \<and> hs \<noteq> [] \<and> length hs \<le> 3
                 \<and> set hs \<subseteq> (\<lambda>t. (sp_id t, sp_name t, join '', '' (sp_artists t))) ` set items))
       \<and> (items = [] \<longrightarrow>
           predict_from_spotify r model_file wfail (Some data) d = (Inl NotFoundOnSpotify, d))"
proof -
  from search_tracks_set [OF srch, of d] obtain results where
    st: "search_tracks r d (title @ '' '' @ artist) 5 = Inr results"
    and sr: "set results = search_result_of d ` set items"
    and ne: "results = [] \<longleftrightarrow> items = []" by blast
  have df: "get_audio_features_from_dataset d title artist = None"
    using nomatch by (simp add: get_audio_features_from_dataset_def)
  have res: "resolve r d data = resolve_by_title r d title artist"
    using inp tt ta title artist by (simp add: resolve_def)
  show ?thesis
  proof (intro conjI impI)
    assume "items \<noteq> []"
    with ne obtain x xs where xs: "results = x # xs" by (cases results) auto
    from sr none_in have "\<forall>y \<in> set results. \<not> sr_in_dataset y" by auto
    then have "first_in_dataset r d results = None" by (rule first_in_dataset_none)
    with df st xs have "resolve_by_title r d title artist
        = Inl (NotInTrainingDataError (hints results))"
      by (simp add: resolve_by_title_def)
    with res have p: "predict_from_spotify r model_file wfail (Some data) d
        = (Inl (NotInTrainingDataError (hints results)), d)"
      by (simp add: predict_from_spotify_def)
    have "set (hints results) \<subseteq> (\<lambda>x. (sr_id x, sr_title x, sr_artist x)) ` set results"
      by (rule hints_subset)
    also have "\<dots> = (\<lambda>t. (sp_id t, sp_name t, join '', '' (sp_artists t))) ` set items"
      unfolding sr image_image search_result_hint ..
    finally have sub: "set (hints results)
        \<subseteq> (\<lambda>t. (sp_id t, sp_name t, join '', '' (sp_artists t))) ` set items" .
    have "hints results \<noteq> []" using xs by (simp add: hints_def)
    with p sub hints_length [of results]
    show "\<exists>hs. predict_from_spotify r model_file wfail (Some data) d
                    = (Inl (NotInTrainingDataError hs), d)
                 \<and> hs \<noteq> [] \<and> length hs \<le> 3
                 \<and> set hs \<subseteq> (\<lambda>t. (sp_id t, sp_name t, join '', '' (sp_artists t))) ` set items"
      by blast
  next
    assume "items = []"
    with ne have "results = []" by simp
    with df st have "resolve_by_title r d title artist = Inl NotFoundOnSpotify"
      by (simp add: resolve_by_title_def)
    with res show "predict_from_spotify r model_file wfail (Some data) d
        = (Inl NotFoundOnSpotify, d)"
      by (simp add: predict_from_spotify_def)
  qed
qed


theorem not_in_training_data_witness:
  "track_input title_request = None
   \<and> truthy (rq_title title_request) \<and> truthy (rq_artist title_request)
   \<and> find_song empty_db ''Comedy'' ''Gen Hoshino'' = None
   \<and> search example_remote ''Comedy Gen Hoshino'' 5 = Inr [example_track]
   \<and> \<not> sr_in_dataset (search_result_of empty_db example_track)
   \<and> predict_from_spotify example_remote None no_faults (Some title_request) empty_db
       = (Inl (NotInTrainingDataError
                [(''5SuOikwiRyPMVoIQDJUgSV'', ''Comedy'', ''Gen Hoshino'')]), empty_db)"
proof -
  have inp: "track_input title_request = None"
    by (simp add: track_input_def title_request_def truthy_def)
  have tt: "truthy (rq_title title_request)" and ta: "truthy (rq_artist title_request)"
    by (simp_all add: title_request_def truthy_def)
  have title: "''Comedy'' = strip (str_or (rq_title title_request) [])"
    by (simp add: title_request_def str_or_def strip_def is_space_def)
  have artist: "''Gen Hoshino'' = strip (str_or (rq_artist title_request) [])"
    by (simp add: title_request_def str_or_def strip_def is_space_def)
  have nomatch: "find_song empty_db ''Comedy'' ''Gen Hoshino'' = None"
    by (simp add: find_song_def empty_db_def)
  have srch: "search example_remote (''Comedy'' @ '' '' @ ''Gen Hoshino'') 5 = Inr [example_track]"
    by (simp add: example_remote_def)
  have nin: "\<not> sr_in_dataset (search_result_of empty_db example_track)"
    by (simp add: search_result_of_def empty_db_def Let_def)
  then have none_in: "\<forall>t \<in> set [example_track]. \<not> sr_in_dataset (search_result_of empty_db t)"
    by simp
  from not_in_training_data [OF inp tt ta title artist nomatch srch none_in,
      of None no_faults]
  obtain hs where
    p: "predict_from_spotify example_remote None no_faults (Some title_request) empty_db
          = (Inl (NotInTrainingDataError hs), empty_db)"
    and ne: "hs \<noteq> []" and le: "length hs \<le> 3"
    and sub: "set hs \<subseteq> (\<lambda>t. (sp_id t, sp_name t, join '', '' (sp_artists t))) ` set [example_track]"
    by auto
  have h: "hints [search_result_of empty_db example_track]
      = [(''5SuOikwiRyPMVoIQDJUgSV'', ''Comedy'', ''Gen Hoshino'')]"
    by (simp add: hints_def search_result_of_def Let_def example_track_def)
  have st: "search_tracks example_remote empty_db (''Comedy'' @ '' '' @ ''Gen Hoshino'') 5
      = Inr [search_result_of empty_db example_track]"
    using srch by (simp add: search_tracks_def)
  have "resolve_by_title example_remote empty_db ''Comedy'' ''Gen Hoshino''
      = Inl (NotInTrainingDataError (hints [search_result_of empty_db example_track]))"
    using nomatch st nin
    by (simp add: resolve_by_title_def get_audio_features_from_dataset_def)
  then have "predict_from_spotify example_remote None no_faults (Some title_request) empty_db
       = (Inl (NotInTrainingDataError
                [(''5SuOikwiRyPMVoIQDJUgSV'', ''Comedy'', ''Gen Hoshino'')]), empty_db)"
    using inp tt ta title [symmetric] artist [symmetric] h
    by (simp add: predict_from_spotify_def resolve_def)
  with p inp tt ta nomatch srch nin show ?thesis by simp
qed

text \<open>
  The claim as written fails when the catalog search returns nothing: no dataset
  match, no candidate in the dataset, and yet the error is not
  \<open>NotInTrainingDataError\<close>.
\<close>

theorem not_in_training_data_counterexample:
  "track_input title_request = None
   \<and> truthy (rq_title title_request) \<and> truthy (rq_artist title_request)
   \<and> get_audio_features_from_dataset empty_db ''Comedy'' ''Gen Hoshino'' = None
   \<and> search_tracks silent_remote empty_db ''Comedy Gen Hoshino'' 5 = Inr []
   \<and> predict_from_spotify silent_remote None no_faults (Some title_request) empty_db
       = (Inl NotFoundOnSpotify, empty_db)"
proof -
  have inp: "track_input title_request = None"
    by (simp add: track_input_def title_request_def truthy_def)
  have tt: "truthy (rq_title title_request)" and ta: "truthy (rq_artist title_request)"
    by (simp_all add: title_request_def truthy_def)
  have title: "strip (str_or (rq_title title_request) []) = ''Comedy''"
    by (simp add: title_request_def str_or_def strip_def is_space_def)
  have artist: "strip (str_or (rq_artist title_request) []) = ''Gen Hoshino''"
    by (simp add: title_request_def str_or_def strip_def is_space_def)
  have nomatch: "get_audio_features_from_dataset empty_db ''Comedy'' ''Gen Hoshino'' = None"
    by (simp add: get_audio_features_from_dataset_def find_song_def empty_db_def)
  have st: "search_tracks silent_remote empty_db ''Comedy Gen Hoshino'' 5 = Inr []"
    by (simp add: search_tracks_def silent_remote_def)
  have "resolve_by_title silent_remote empty_db ''Comedy'' ''Gen Hoshino'' = Inl NotFoundOnSpotify"
    using nomatch st by (simp add: resolve_by_title_def)
  then have "predict_from_spotify silent_remote None no_faults (Some title_request) empty_db
       = (Inl NotFoundOnSpotify, empty_db)"
    using inp tt ta title artist by (simp add: predict_from_spotify_def resolve_def)
  with inp tt ta nomatch st show ?thesis by simp
qed

subsection \<open>The label invariant of stored songs\<close>

lemma hit_consistent_song_save: "hit_consistent (song_save s)"
  by (simp add: hit_consistent_def song_save_def split: option.splits)

lemma hit_consistent_song_id [simp]:
  "hit_consistent (s\<lparr>song_id := n\<rparr>) = hit_consistent s"
  by (simp add: hit_consistent_def split: option.splits)

lemma song_create_songs:
  "song_create wfail d s = Inr (s', d') \<Longrightarrow>
   songs d' = s' # songs d \<and> s' = song_save (s\<lparr>song_id := next_song_id d\<rparr>)
   \<and> predictions d' = predictions d \<and> audit_logs d' = audit_logs d"
  by (auto simp: song_create_def Let_def split: if_splits)

lemma song_update_songs:
  "song_update wfail d s = Inr (s', d') \<Longrightarrow>
   songs d' = map (\<lambda>x. if song_id x = song_id s' then s' else x) (songs d)
   \<and> s' = song_save s
   \<and> predictions d' = predictions d \<and> audit_logs d' = audit_logs d"
  by (auto simp: song_update_def Let_def split: if_splits)

lemma store_song_consistent:
  assumes "store_song wfail d tid ad mi = Inr (sg, d')"
    and "\<forall>s \<in> set (songs d). hit_consistent s"
  shows "\<forall>s \<in> set (songs d'). hit_consistent s"
proof -
  from assms(1) consider
      s where "song_create wfail d s = Inr (sg, d')"
    | s where "song_update wfail d s = Inr (sg, d')"
    by (auto simp: store_song_def split: if_splits list.splits)
  then show ?thesis
  proof cases
    case 1
    from song_create_songs [OF 1] assms(2) show ?thesis
      by (auto simp: hit_consistent_song_save)
  next
    case 2
    from song_update_songs [OF 2] assms(2) show ?thesis
      by (auto simp: hit_consistent_song_save)
  qed
qed

lemma store_song_tables:
  "store_song wfail d tid ad mi = Inr (sg, d') \<Longrightarrow>
   predictions d' = predictions d \<and> audit_logs d' = audit_logs d"
  by (auto simp: store_song_def split: if_splits list.splits
           dest: song_create_songs song_update_songs)

lemma prediction_create_tables:
  "prediction_create wfail d p = Inr (p', d') \<Longrightarrow>
   songs d' = songs d \<and> predictions d' = p' # predictions d
   \<and> audit_logs d' = audit_logs d \<and> p' = p\<lparr>prediction_id := next_prediction_id d\<rparr>"
  by (auto simp: prediction_create_def Let_def split: if_splits)

lemma audit_create_tables:
  "audit_create wfail d pid rq rs = Inr d' \<Longrightarrow>
   songs d' = songs d \<and> predictions d' = predictions d
   \<and> (\<exists>a. audit_logs d' = a # audit_logs d \<and> audit_prediction a = pid)"
  by (auto simp: audit_create_def split: if_splits)

text \<open>A property of the database that every write of a request keeps holds afterwards.\<close>

lemma predict_from_spotify_preserves:
  assumes base: "P d"
    and s1: "\<And>tid ad mi sg d1. store_song wfail d tid ad mi = Inr (sg, d1) \<Longrightarrow> P d1"
    and s2: "\<And>d1 p p' d2. P d1 \<Longrightarrow> prediction_create wfail d1 p = Inr (p', d2) \<Longrightarrow> P d2"
    and s3: "\<And>d2 pid rq rs d3. P d2 \<Longrightarrow> audit_create wfail d2 pid rq rs = Inr d3 \<Longrightarrow> P d3"
  shows "P (snd (predict_from_spotify r model_file wfail body d))"
  unfolding predict_from_spotify_def Let_def
  using base
  by (auto split: option.splits sum.splits prod.splits
           intro: s1 s2 [OF s1] s3 [OF s2 [OF s1]])

lemma predict_manual_preserves:
  assumes base: "P d"
    and s1: "\<And>s sg d1. song_create wfail d s = Inr (sg, d1) \<Longrightarrow> P d1"
    and s2: "\<And>d1 p p' d2. P d1 \<Longrightarrow> prediction_create wfail d1 p = Inr (p', d2) \<Longrightarrow> P d2"
    and s3: "\<And>d2 pid rq rs d3. P d2 \<Longrightarrow> audit_create wfail d2 pid rq rs = Inr d3 \<Longrightarrow> P d3"
  shows "P (snd (predict_manual rt model_file wfail body d))"
  unfolding predict_manual_def Let_def
  using base
  by (auto split: option.splits sum.splits prod.splits
           intro: s1 s2 [OF s1] s3 [OF s2 [OF s1]])

lemma predict_from_spotify_consistent:
  assumes "\<forall>s \<in> set (songs d). hit_consistent s"
  shows "\<forall>s \<in> set (songs (snd (predict_from_spotify r model_file wfail body d))). hit_consistent s"
proof (rule predict_from_spotify_preserves [where P = "\<lambda>d. \<forall>s \<in> set (songs d). hit_consistent s"])
  show "\<forall>s \<in> set (songs d). hit_consistent s" by fact
next
  fix tid ad mi sg d1
  assume "store_song wfail d tid ad mi = Inr (sg, d1)"
  then show "\<forall>s \<in> set (songs d1). hit_consistent s"
    using assms by (rule store_song_consistent)
next
  fix d1 p p' d2
  assume "\<forall>s \<in> set (songs d1). hit_consistent s" "prediction_create wfail d1 p = Inr (p', d2)"
  then show "\<forall>s \<in> set (songs d2). hit_consistent s"
    using prediction_create_tables [of wfail d1 p p' d2] by simp
next
  fix d2 pid rq rs d3
  assume "\<forall>s \<in> set (songs d2). hit_consistent s" "audit_create wfail d2 pid rq rs = Inr d3"
  then show "\<forall>s \<in> set (songs d3). hit_consistent s"
    using audit_create_tables [of wfail d2 pid rq rs d3] by simp
qed

lemma predict_manual_consistent:
  assumes "\<forall>s \<in> set (songs d). hit_consistent s"
  shows "\<forall>s \<in> set (songs (snd (predict_manual rt model_file wfail body d))). hit_consistent s"
proof (rule predict_manual_preserves [where P = "\<lambda>d. \<forall>s \<in> set (songs d). hit_consistent s"])
  show "\<forall>s \<in> set (songs d). hit_consistent s" by fact
next
  fix s sg d1
  assume "song_create wfail d s = Inr (sg, d1)"
  from song_create_songs [OF this] assms
  show "\<forall>s \<in> set (songs d1). hit_consistent s"
    by (auto simp: hit_consistent_song_save)
next
  fix d1 p p' d2
  assume "\<forall>s \<in> set (songs d1). hit_consistent s" "prediction_create wfail d1 p = Inr (p', d2)"
  then show "\<forall>s \<in> set (songs d2). hit_consistent s"
    using prediction_create_tables [of wfail d1 p p' d2] by simp
next
  fix d2 pid rq rs d3
  assume "\<forall>s \<in> set (songs d2). hit_consistent s" "audit_create wfail d2 pid rq rs = Inr d3"
  then show "\<forall>s \<in> set (songs d3). hit_consistent s"
    using audit_create_tables [of wfail d2 pid rq rs d3] by simp
qed

lemma bind_SomeE:
  assumes "Option.bind m f = Some s"
  obtains v where "m = Some v" "f v = Some s"
  using assms by (auto simp: bind_eq_Some_conv)

lemma import_record_label:
  assumes "import_record rt row = Some s"
  shows "if_notna (cell_int rt) (c_popularity row) = Some (popularity s)
         \<and> is_hit s = (case popularity s of None \<Rightarrow> None | Some p \<Rightarrow> Some (p \<ge> 50))"
  using assms unfolding import_record_def
  apply (elim bind_SomeE)
  apply (simp only: option.inject)
  apply hypsubst
  apply simp
  done

lemma import_record_consistent: "import_record rt row = Some s \<Longrightarrow> hit_consistent s"
  using import_record_label [of rt row s]
  by (simp add: hit_consistent_def split: option.splits)

lemma bulk_create_Cons:
  "bulk_create d (a # records) =
     bulk_create (d\<lparr>songs := a\<lparr>song_id := next_song_id d\<rparr> # songs d,
                    next_song_id := Suc (next_song_id d)\<rparr>) records"
  by (simp add: bulk_create_def)

lemma bulk_create_consistent:
  "\<forall>s \<in> set (songs d). hit_consistent s \<Longrightarrow> \<forall>s \<in> set records. hit_consistent s \<Longrightarrow>
   \<forall>s \<in> set (songs (bulk_create d records)). hit_consistent s"
proof (induction records arbitrary: d)
  case Nil
  then show ?case by (simp add: bulk_create_def)
next
  case (Cons a records)
  let ?d1 = "d\<lparr>songs := a\<lparr>song_id := next_song_id d\<rparr> # songs d,
                 next_song_id := Suc (next_song_id d)\<rparr>"
  from Cons.prems have "\<forall>s \<in> set (songs ?d1). hit_consistent s" by simp
  moreover from Cons.prems have "\<forall>s \<in> set records. hit_consistent s" by simp
  ultimately have "\<forall>s \<in> set (songs (bulk_create ?d1 records)). hit_consistent s"
    by (rule Cons.IH)
  then show ?case by (simp only: bulk_create_Cons)
qed

lemma import_row_ok:
  assumes "import_ok st"
  shows "import_ok (import_row rt n row st)"
proof (cases "track_id_exists (import_db st) row")
  case True
  with assms show ?thesis by (simp add: import_row_def import_ok_def)
next
  case False
  show ?thesis
  proof (cases "import_record rt row")
    case None
    with False assms show ?thesis by (simp add: import_row_def)
  next
    case (Some sr)
    then have hc: "hit_consistent sr" by (rule import_record_consistent)
    with assms have p: "\<forall>s \<in> set (pending st @ [sr]). hit_consistent s"
      by (auto simp: import_ok_def)
    from assms have q: "\<forall>s \<in> set (songs (import_db st)). hit_consistent s"
      by (simp add: import_ok_def)
    from bulk_create_consistent [OF q p] p q False Some show ?thesis
      by (simp add: import_row_def import_ok_def Let_def)
  qed
qed

lemma import_rows_ok: "import_ok st \<Longrightarrow> import_ok (import_rows rt n rs st)"
  by (induction rs arbitrary: st) (auto intro: import_row_ok)

lemma import_dataset_consistent:
  assumes "\<forall>s \<in> set (songs d). hit_consistent s"
  shows "\<forall>s \<in> set (songs (import_dataset rt n file d)). hit_consistent s"
proof (cases "file")
  case NoFile
  with assms show ?thesis by (simp add: import_dataset_def)
next
  case Unreadable
  with assms show ?thesis by (simp add: import_dataset_def)
next
  case (Frame df)
  let ?st = "import_rows rt n (rows df)
      \<lparr>pending = [], imported_count = 0, skipped_count = 0, error_count = 0, import_db = d\<rparr>"
  have "import_ok \<lparr>pending = [], imported_count = 0, skipped_count = 0, error_count = 0,
      import_db = d\<rparr>"
    using assms by (simp add: import_ok_def)
  then have ok: "import_ok ?st" by (rule import_rows_ok)
  then have a: "\<forall>s \<in> set (songs (import_db ?st)). hit_consistent s"
    and b: "\<forall>s \<in> set (pending ?st). hit_consistent s"
    by (simp_all add: import_ok_def)
  from bulk_create_consistent [OF a b] a assms Frame show ?thesis
    by (simp add: import_dataset_def Let_def)
qed

lemma import_complete_row_ok:
  assumes "import_ok st"
  shows "import_ok (import_complete_row rt n row st)"
proof (cases "import_record rt row")
  case None
  with assms show ?thesis by (simp add: import_complete_row_def import_ok_def)
next
  case (Some sr)
  then have hc: "hit_consistent sr" by (rule import_record_consistent)
  with assms have p: "\<forall>s \<in> set (pending st @ [sr]). hit_consistent s"
    by (auto simp: import_ok_def)
  from assms have q: "\<forall>s \<in> set (songs (import_db st)). hit_consistent s"
    by (simp add: import_ok_def)
  from bulk_create_consistent [OF q p] p q Some show ?thesis
    by (simp add: import_complete_row_def import_ok_def Let_def)
qed

lemma import_complete_rows_ok:
  "import_ok st \<Longrightarrow> import_ok (import_complete_rows rt n rs st)"
  by (induction rs arbitrary: st) (auto intro: import_complete_row_ok)

lemma import_complete_dataset_consistent:
  assumes "\<forall>s \<in> set (songs d). hit_consistent s"
  shows "\<forall>s \<in> set (songs (import_complete_dataset rt n c file d)). hit_consistent s"
proof -
  let ?d0 = "if c then clear_database d else d"
  have d0: "\<forall>s \<in> set (songs ?d0). hit_consistent s"
    using assms by (simp add: clear_database_def)
  show ?thesis
  proof (cases "file")
    case NoFile
    with assms show ?thesis by (simp add: import_complete_dataset_def)
  next
    case Unreadable
    with d0 show ?thesis by (simp add: import_complete_dataset_def)
  next
    case (Frame df)
    let ?st = "import_complete_rows rt n (rows df)
        \<lparr>pending = [], imported_count = 0, skipped_count = 0, error_count = 0,
         import_db = ?d0\<rparr>"
    have "import_ok \<lparr>pending = [], imported_count = 0, skipped_count = 0, error_count = 0,
        import_db = ?d0\<rparr>"
      using d0 by (simp add: import_ok_def)
    then have ok: "import_ok ?st" by (rule import_complete_rows_ok)
    then have a: "\<forall>s \<in> set (songs (import_db ?st)). hit_consistent s"
      and b: "\<forall>s \<in> set (pending ?st). hit_consistent s"
      by (simp_all add: import_ok_def)
    from bulk_create_consistent [OF a b] a d0 Frame show ?thesis
      by (simp add: import_complete_dataset_def Let_def)
  qed
qed

lemma reachable_consistent: "reachable d \<Longrightarrow> \<forall>s \<in> set (songs d). hit_consistent s"
proof (induction rule: reachable.induct)
  case reachable_empty
  then show ?case by (simp add: empty_db_def)
next
  case (reachable_spotify d r model_file wfail body)
  then show ?case by (simp add: predict_from_spotify_consistent)
next
  case (reachable_manual d rt model_file wfail body')
  then show ?case by (simp add: predict_manual_consistent)
next
  case (reachable_import d rt batch_size csv)
  then show ?case by (simp add: import_dataset_consistent)
next
  case (reachable_import_complete d rt batch_size clear_first csv)
  then show ?case by (simp add: import_complete_dataset_consistent)
next
  case (reachable_clear d)
  then show ?case by (simp add: clear_database_def)
qed


text \<open>
  C6. Every stored Song row with a popularity has \<open>is_hit = (popularity \<ge> 50)\<close>: the
  row that \<^verbatim>\<open>Song.save\<close> writes has it, the record that the CSV import builds has it,
  and so has every row of every database that requests, imports and clearings can
  produce. In particular a row with popularity 73 gives the reference label HIT.
\<close>

theorem stored_label_invariant:
  "(popularity (song_save s) = Some p \<longrightarrow> is_hit (song_save s) = Some (50 \<le> p))
   \<and> (import_record rt row = Some s' \<and> popularity s' = Some p \<longrightarrow> is_hit s' = Some (50 \<le> p))
   \<and> (reachable d \<longrightarrow>
        (\<forall>x \<in> set (songs d).
           (\<forall>q. popularity x = Some q \<longrightarrow> is_hit x = Some (50 \<le> q))
           \<and> (popularity x = Some 73 \<longrightarrow> df_is_hit_in_dataset (dataset_features_of x))))"
proof (intro conjI impI)
  assume "popularity (song_save s) = Some p"
  with hit_consistent_song_save [of s] show "is_hit (song_save s) = Some (50 \<le> p)"
    by (simp add: hit_consistent_def)
next
  assume "import_record rt row = Some s' \<and> popularity s' = Some p"
  with import_record_consistent [of rt row s'] show "is_hit s' = Some (50 \<le> p)"
    by (simp add: hit_consistent_def)
next
  assume "reachable d"
  then have c: "\<forall>x \<in> set (songs d). hit_consistent x" by (rule reachable_consistent)
  show "\<forall>x \<in> set (songs d).
           (\<forall>q. popularity x = Some q \<longrightarrow> is_hit x = Some (50 \<le> q))
           \<and> (popularity x = Some 73 \<longrightarrow> df_is_hit_in_dataset (dataset_features_of x))"
  proof
    fix x assume "x \<in> set (songs d)"
    with c have "hit_consistent x" by blast
    then show "(\<forall>q. popularity x = Some q \<longrightarrow> is_hit x = Some (50 \<le> q))
           \<and> (popularity x = Some 73 \<longrightarrow> df_is_hit_in_dataset (dataset_features_of x))"
      by (auto simp: hit_consistent_def dataset_features_of_def)
  qed
qed

lemma import_example_file:
  "songs (import_dataset decimal_rt 1000 (Frame example_file) empty_db)
     = [example_song\<lparr>key := Some 1, speechiness := Some (Fin 0.143),
                      liveness := Some (Fin 0.358), time_signature := Some 4\<rparr>]"
  by (simp add: import_dataset_def example_file_def import_required_columns_def
      import_row_def track_id_exists_def empty_db_def import_record_def example_row_def
      if_notna_def bulk_create_def example_song_def)

theorem stored_label_invariant_witness:
  "reachable (import_dataset decimal_rt 1000 (Frame example_file) empty_db)
   \<and> map popularity (songs (import_dataset decimal_rt 1000 (Frame example_file) empty_db))
       = [Some 73]
   \<and> map is_hit (songs (import_dataset decimal_rt 1000 (Frame example_file) empty_db))
       = [Some True]
   \<and> map (\<lambda>x. df_is_hit_in_dataset (dataset_features_of x))
        (songs (import_dataset decimal_rt 1000 (Frame example_file) empty_db)) = [True]
   \<and> popularity (song_save (example_song\<lparr>is_hit := None\<rparr>)) = Some 73
   \<and> is_hit (song_save (example_song\<lparr>is_hit := None\<rparr>)) = Some True"
proof -
  let ?d = "import_dataset decimal_rt 1000 (Frame example_file) empty_db"
  let ?s = "example_song\<lparr>key := Some 1, speechiness := Some (Fin 0.143),
                      liveness := Some (Fin 0.358), time_signature := Some 4\<rparr>"
  have r: "reachable ?d" by (intro reachable_import reachable_empty)
  have sg: "songs ?d = [?s]" by (rule import_example_file)
  have p: "popularity ?s = Some 73" by (simp add: example_song_def)
  have ps: "popularity (song_save (example_song\<lparr>is_hit := None\<rparr>)) = Some 73"
    by (simp add: song_save_def example_song_def)
  from stored_label_invariant [of "example_song\<lparr>is_hit := None\<rparr>" 73 _ _ _ ?d] r sg p ps
  have "is_hit ?s = Some True" "df_is_hit_in_dataset (dataset_features_of ?s)"
    "is_hit (song_save (example_song\<lparr>is_hit := None\<rparr>)) = Some True"
    by simp_all
  with r sg p ps show ?thesis by simp
qed

subsection \<open>CSV import\<close>

text \<open>
  C9. The import at a file whose only row has an empty \<^verbatim>\<open>duration_ms\<close> cell: the
  conversion \<^verbatim>\<open>int(nan)\<close> raises, the row is skipped and nothing is stored, where the
  claim has the row imported with \<^verbatim>\<open>duration_ms = 0\<close>. A row with an empty
  \<^verbatim>\<open>danceability\<close> cell is built with NaN, not with 0. A file that lacks the
  \<^verbatim>\<open>duration_ms\<close> column altogether ends the import before its first row. The stored
  label does not depend on an \<^verbatim>\<open>is_hit\<close> column: the record is the same whatever that
  cell holds.
\<close>

theorem import_empty_cell_not_defaulted:
  "import_record decimal_rt (example_row\<lparr>c_duration_ms := CNaN\<rparr>) = None
   \<and> songs (import_dataset decimal_rt 1000 (Frame no_duration_file) empty_db) = []
   \<and> map_option danceability (import_record decimal_rt (example_row\<lparr>c_danceability := CNaN\<rparr>))
       = Some NaN
   \<and> songs (import_dataset decimal_rt 1000 (Frame no_duration_column_file) empty_db) = []
   \<and> import_record rt (row\<lparr>c_is_hit := x\<rparr>) = import_record rt row"
proof -
  have a: "import_record decimal_rt (example_row\<lparr>c_duration_ms := CNaN\<rparr>) = None"
    by (simp add: import_record_def example_row_def if_notna_def)
  have b: "songs (import_dataset decimal_rt 1000 (Frame no_duration_file) empty_db) = []"
    using a
    by (simp add: import_dataset_def no_duration_file_def import_required_columns_def
        import_row_def track_id_exists_def empty_db_def)
  have c: "map_option danceability
      (import_record decimal_rt (example_row\<lparr>c_danceability := CNaN\<rparr>)) = Some NaN"
    by (simp add: import_record_def example_row_def if_notna_def)
  have d: "songs (import_dataset decimal_rt 1000 (Frame no_duration_column_file) empty_db) = []"
    by (simp add: import_dataset_def no_duration_column_file_def import_required_columns_def
        empty_db_def)
  have e: "import_record rt (row\<lparr>c_is_hit := x\<rparr>) = import_record rt row"
    by (simp add: import_record_def)
  from a b c d e show ?thesis by simp
qed

subsection \<open>Prediction and audit rows\<close>

lemma outcome_prediction_failed:
  "prediction_create wfail d1 p0 = Inl e \<Longrightarrow> predictions d1 = predictions d \<Longrightarrow>
   audit_logs d1 = audit_logs d \<Longrightarrow> paired_outcome wfail (Some e) d d1"
  by (simp add: paired_outcome_def)

lemma outcome_audit_failed:
  "prediction_create wfail d1 p0 = Inr (p, d2) \<Longrightarrow>
   audit_create wfail d2 (prediction_id p) rq rs = Inl e \<Longrightarrow>
   predictions d1 = predictions d \<Longrightarrow> audit_logs d1 = audit_logs d \<Longrightarrow>
   paired_outcome wfail (Some e) d d2"
  by (auto simp: paired_outcome_def audit_create_def prediction_create_def Let_def
           split: if_splits)

lemma outcome_success:
  "prediction_create wfail d1 p0 = Inr (p, d2) \<Longrightarrow>
   audit_create wfail d2 (prediction_id p) rq rs = Inr d3 \<Longrightarrow>
   predictions d1 = predictions d \<Longrightarrow> audit_logs d1 = audit_logs d \<Longrightarrow>
   paired_outcome wfail None d d3"
  by (auto simp: paired_outcome_def audit_create_def prediction_create_def Let_def
           split: if_splits)

lemma paired_outcome_refl: "paired_outcome wfail (Some e) d d"
  by (simp add: paired_outcome_def)

lemma song_create_keeps:
  "song_create wfail d s = Inr (sg, d1) \<Longrightarrow>
   predictions d1 = predictions d \<and> audit_logs d1 = audit_logs d"
  by (simp add: song_create_songs)

lemma predict_manual_paired:
  "paired_outcome wfail (failure_of (fst (predict_manual rt model_file wfail body d))) d
     (snd (predict_manual rt model_file wfail body d))"
  unfolding predict_manual_def Let_def failure_of_def
  by (auto split: option.splits sum.splits prod.splits simp: paired_outcome_refl
           dest!: song_create_keeps
           intro: outcome_prediction_failed outcome_audit_failed outcome_success)

lemma predict_from_spotify_paired:
  "paired_outcome wfail (failure_of (fst (predict_from_spotify r model_file wfail body d))) d
     (snd (predict_from_spotify r model_file wfail body d))"
  unfolding predict_from_spotify_def Let_def failure_of_def
  by (auto split: option.splits sum.splits prod.splits simp: paired_outcome_refl
           dest!: store_song_tables
           intro: outcome_prediction_failed outcome_audit_failed outcome_success)


lemma validate_example: "validate decimal_rt example_manual = Inr example_features"
  by (simp add: validate_def convert_fields_def required_fields_def
      example_manual_def int_field_def float_field_def example_features_def)

lemma predict_example:
  "predict_song (Some example_classifier) v = Inr (True, 62.34)"
  by (simp add: predict_song_def load_model_def example_classifier_def py_round2_def
      round_half_even_def)

text \<open>
  C8, as the code has it. For both prediction views and whatever fails: a request
  that succeeds adds one Prediction and one audit row that refers to it; a request
  that fails adds no audit row, so there is never an audit row without its
  Prediction; and a request that fails for any reason but the audit write adds no
  Prediction either. The two rows are written by two statements with no transaction
  around them, so when the audit write itself fails the Prediction written just
  before stays.
\<close>

theorem prediction_audit_pairing:
  "paired_outcome wfail (failure_of (fst (predict_from_spotify r model_file wfail body d))) d
     (snd (predict_from_spotify r model_file wfail body d))
   \<and> paired_outcome wfail (failure_of (fst (predict_manual rt model_file wfail body' d))) d
     (snd (predict_manual rt model_file wfail body' d))
   \<and> (\<not> wfail AuditInsert \<and> fst (predict_from_spotify r model_file wfail body d) = Inl e \<longrightarrow>
        predictions (snd (predict_from_spotify r model_file wfail body d)) = predictions d
        \<and> audit_logs (snd (predict_from_spotify r model_file wfail body d)) = audit_logs d)
   \<and> (\<not> wfail AuditInsert \<and> fst (predict_manual rt model_file wfail body' d) = Inl e \<longrightarrow>
        predictions (snd (predict_manual rt model_file wfail body' d)) = predictions d
        \<and> audit_logs (snd (predict_manual rt model_file wfail body' d)) = audit_logs d)"
proof -
  have a: "paired_outcome wfail (failure_of (fst (predict_from_spotify r model_file wfail body d)))
      d (snd (predict_from_spotify r model_file wfail body d))"
    by (rule predict_from_spotify_paired)
  have b: "paired_outcome wfail (failure_of (fst (predict_manual rt model_file wfail body' d)))
      d (snd (predict_manual rt model_file wfail body' d))"
    by (rule predict_manual_paired)
  have c: "paired_outcome wfail (failure_of x) d y \<Longrightarrow> \<not> wfail AuditInsert \<Longrightarrow> x = Inl e \<Longrightarrow>
      predictions y = predictions d \<and> audit_logs y = audit_logs d" for x :: "error + 'z" and y
    by (auto simp: paired_outcome_def failure_of_def)
  from a b c [OF a] c [OF b] show ?thesis by blast
qed

lemma song_save_id: "song_id (song_save s) = song_id s"
  by (simp add: song_save_def)

lemma example_manual_title:
  "json_get example_manual ''title'' dflt = dflt"
  by (simp add: json_get_def example_manual_def)

lemma manual_request_success:
  "fst (predict_manual decimal_rt (Some example_classifier) no_faults (Some example_manual) empty_db)
     = Inr \<lparr>rm_prediction = ''HIT'', rm_confidence = 62.34,
            rm_song_title = JStr ''Untitled Song'', rm_song_id = 1, rm_prediction_id = 1,
            rm_features = example_features\<rparr>"
  by (simp add: predict_manual_def validate_example predict_example song_create_def
      prediction_create_def audit_create_def no_faults_def empty_db_def Let_def
      hit_label_def example_manual_title manual_prediction_def song_save_id)

lemma manual_request_without_model:
  "fst (predict_manual decimal_rt None no_faults (Some example_manual) empty_db)
     = Inl ModelNotFoundError"
  by (simp add: predict_manual_def validate_example predict_song_def load_model_def)

theorem prediction_audit_pairing_witness:
  "\<not> no_faults AuditInsert
   \<and> fst (predict_manual decimal_rt None no_faults (Some example_manual) empty_db)
       = Inl ModelNotFoundError
   \<and> predictions (snd (predict_manual decimal_rt None no_faults (Some example_manual) empty_db))
       = []
   \<and> audit_logs (snd (predict_manual decimal_rt None no_faults (Some example_manual) empty_db))
       = []
   \<and> map prediction_id (predictions (snd (predict_manual decimal_rt (Some example_classifier)
         no_faults (Some example_manual) empty_db))) = [1]
   \<and> map audit_prediction (audit_logs (snd (predict_manual decimal_rt (Some example_classifier)
         no_faults (Some example_manual) empty_db))) = [1]"
proof -
  have nf: "\<not> no_faults AuditInsert" by (simp add: no_faults_def)
  have e: "predictions empty_db = []" "audit_logs empty_db = []"
    by (simp_all add: empty_db_def)
  note t1 = prediction_audit_pairing [of no_faults silent_remote None None empty_db
      decimal_rt "Some example_manual" ModelNotFoundError]
  note t2 = prediction_audit_pairing [of no_faults silent_remote "Some example_classifier" None
      empty_db decimal_rt "Some example_manual"]
  from t1 nf manual_request_without_model e
  have "predictions (snd (predict_manual decimal_rt None no_faults (Some example_manual) empty_db))
       = []"
    "audit_logs (snd (predict_manual decimal_rt None no_faults (Some example_manual) empty_db))
       = []"
    by simp_all
  moreover from t2 manual_request_success e
  have "map prediction_id (predictions (snd (predict_manual decimal_rt (Some example_classifier)
         no_faults (Some example_manual) empty_db))) = [1]
      \<and> map audit_prediction (audit_logs (snd (predict_manual decimal_rt (Some example_classifier)
         no_faults (Some example_manual) empty_db))) = [1]"
    by (auto simp: paired_outcome_def failure_of_def predict_manual_def validate_example
        predict_example song_create_def prediction_create_def audit_create_def no_faults_def
        empty_db_def Let_def)
  ultimately show ?thesis using nf manual_request_without_model by simp
qed

lemma open_request_resolution:
  "resolve example_remote renamed_db open_request
     = Inr (Some ''open'', merge_remote (track_info_of ''open'' example_track) example_sp_features)"
proof -
  let ?ti = "track_info_of ''open'' example_track"
  have inp: "track_input open_request = Some ''open''"
    by (simp add: track_input_def open_request_def truthy_def)
  have ex: "extract_track_id ''open'' = ''open''"
    by (simp add: extract_track_id_def strip_def is_space_def)
  have ti: "get_track_info example_remote ''open'' = Inr ?ti"
    by (simp add: get_track_info_def example_remote_def)
  have title: "ti_title ?ti = ''Comedy''" and artist: "ti_artist ?ti = ''Gen Hoshino''"
    by (simp_all add: track_info_of_def example_track_def)
  have "\<not> matches_partial ''Comedy'' ''Gen Hoshino'' s"
    if "s \<in> set (songs renamed_db)" for s
    using that
    by (simp add: renamed_db_def matches_partial_def icontains_def lower_def lower_char_def
        strip_def is_space_def example_song_def)
  then have nf: "find_song renamed_db ''Comedy'' ''Gen Hoshino'' = None"
    by (simp add: find_song_None)
  have fo: "get_features example_remote ''open'' = Inr (Some example_sp_features)"
    by (simp add: example_remote_def)
  have "get_audio_features example_remote renamed_db ''open''
      = Inr (merge_remote ?ti example_sp_features)"
    by (simp add: get_audio_features_def ti title artist nf fo
        get_audio_features_from_dataset_def)
  with inp ex show ?thesis by (simp add: resolve_def Let_def)
qed

text \<open>
  The claim as written fails when the audit write is the step that fails: the manual
  request and the request by identifier below are answered with an error, and each
  leaves its Prediction stored without an audit row.
\<close>

theorem prediction_audit_pairing_counterexample:
  "fst (predict_manual decimal_rt (Some example_classifier) audit_write_fails
          (Some example_manual) empty_db) = Inl DatabaseError
   \<and> map prediction_id (predictions (snd (predict_manual decimal_rt (Some example_classifier)
         audit_write_fails (Some example_manual) empty_db))) = [1]
   \<and> audit_logs (snd (predict_manual decimal_rt (Some example_classifier)
         audit_write_fails (Some example_manual) empty_db)) = []
   \<and> fst (predict_from_spotify example_remote (Some example_classifier) audit_write_fails
          (Some open_request) renamed_db) = Inl DatabaseError
   \<and> map prediction_id (predictions (snd (predict_from_spotify example_remote
         (Some example_classifier) audit_write_fails (Some open_request) renamed_db))) = [1]
   \<and> audit_logs (snd (predict_from_spotify example_remote
         (Some example_classifier) audit_write_fails (Some open_request) renamed_db)) = []"
proof -
  have m: "fst (predict_manual decimal_rt (Some example_classifier) audit_write_fails
          (Some example_manual) empty_db) = Inl DatabaseError
   \<and> map prediction_id (predictions (snd (predict_manual decimal_rt (Some example_classifier)
         audit_write_fails (Some example_manual) empty_db))) = [1]
   \<and> audit_logs (snd (predict_manual decimal_rt (Some example_classifier)
         audit_write_fails (Some example_manual) empty_db)) = []"
    by (simp add: predict_manual_def validate_example predict_example song_create_def
        prediction_create_def audit_create_def audit_write_fails_def empty_db_def Let_def)
  have st: "store_song audit_write_fails renamed_db (Some ''open'') ad mi
      = Inr (song_save (overwrite_song (hd (songs renamed_db)) ad mi),
             renamed_db\<lparr>songs := [song_save (overwrite_song (hd (songs renamed_db)) ad mi)]\<rparr>)"
    for ad mi
    by (simp add: store_song_def truthy_def renamed_db_def song_update_def
        audit_write_fails_def Let_def song_save_def overwrite_song_def)
  have s: "fst (predict_from_spotify example_remote (Some example_classifier) audit_write_fails
          (Some open_request) renamed_db) = Inl DatabaseError
   \<and> map prediction_id (predictions (snd (predict_from_spotify example_remote
         (Some example_classifier) audit_write_fails (Some open_request) renamed_db))) = [1]
   \<and> audit_logs (snd (predict_from_spotify example_remote
         (Some example_classifier) audit_write_fails (Some open_request) renamed_db)) = []"
    by (simp add: predict_from_spotify_def open_request_resolution predict_example st
        prediction_create_def audit_create_def audit_write_fails_def Let_def)
       (simp add: renamed_db_def)
  from m s show ?thesis by simp
qed


subsection \<open>Upsert of a stored song\<close>





end
